theory Spec2Isabelle
  imports Complex_Main
begin

section \<open>Numbers\<close>

text \<open>
  The program computes with Python numbers: ints, floats and numpy's float64 scalars.
  A number is modelled by the value it denotes: a real, one of the two infinities, or
  a not-a-number. Each arithmetic operation returns the exact result rounded to the
  nearest float64, ties to even, as IEEE 754 has it, with its rules for the infinities
  and for NaN. There are two NaNs, to tell bit patterns apart: \<open>NaN\<close> is the one an
  invalid operation produces (on x86-64 its sign bit is set, bits \<open>fff8...\<close>), and
  \<open>NaN_other\<close> stands for a NaN with other bits, such as the one \<open>float('nan')\<close>
  returns there (bits \<open>7ff8...\<close>). An operation on a NaN returns that NaN (the first
  one when both operands are NaNs). The sign of zero, and the difference between an int,
  a float and a float64 of the same value, are not modelled: a sample size is taken as
  a float.
\<close>

datatype pynum = Fin real | PInf | NInf | NaN | NaN_other

definition is_nan :: "pynum \<Rightarrow> bool" where
  "is_nan a \<longleftrightarrow> a = NaN \<or> a = NaN_other"

text \<open>Comparisons: any comparison with a NaN is false.\<close>

fun py_lt :: "pynum \<Rightarrow> pynum \<Rightarrow> bool" where
  "py_lt (Fin x) (Fin y) = (x < y)"
| "py_lt (Fin x) PInf = True"
| "py_lt (Fin x) NInf = False"
| "py_lt (Fin x) NaN = False"
| "py_lt (Fin x) NaN_other = False"
| "py_lt PInf b = False"
| "py_lt NInf (Fin y) = True"
| "py_lt NInf PInf = True"
| "py_lt NInf NInf = False"
| "py_lt NInf NaN = False"
| "py_lt NInf NaN_other = False"
| "py_lt NaN b = False"
| "py_lt NaN_other b = False"

definition py_le :: "pynum \<Rightarrow> pynum \<Rightarrow> bool" where
  "py_le a b = (py_lt a b \<or> (a = b \<and> \<not> is_nan a))"

definition py_gt :: "pynum \<Rightarrow> pynum \<Rightarrow> bool" where
  "py_gt a b = py_lt b a"

definition py_ge :: "pynum \<Rightarrow> pynum \<Rightarrow> bool" where
  "py_ge a b = py_le b a"

subsection \<open>Rounding to float64\<close>

text \<open>
  The nearest integer, ties to the even one.
\<close>

definition rne :: "real \<Rightarrow> int" where
  "rne y =
     (let f = \<lfloor>y\<rfloor>; d = y - of_int f
      in if d < 1 / 2 then f else if 1 / 2 < d then f + 1 else if even f then f else f + 1)"

text \<open>
  A float64 has 53 significant bits: a number with \<open>2 ^ e \<le> |x| < 2 ^ (e + 1)\<close> is
  rounded to a multiple of \<open>2 ^ (e - 52)\<close>. Below \<open>2 ^ -1022\<close> the spacing stays
  \<open>2 ^ -1074\<close> (the subnormal numbers), and a result of size \<open>2 ^ 1024\<close> or more is
  an infinity.
\<close>

definition round_to :: "int \<Rightarrow> real \<Rightarrow> real" where
  "round_to e x = of_int (rne (x / 2 powi (e - 52))) * 2 powi (e - 52)"

definition overflow_at :: real where
  "overflow_at = 2 ^ 1024"

definition finish :: "real \<Rightarrow> pynum" where
  "finish r = (if overflow_at \<le> r then PInf else if r \<le> - overflow_at then NInf else Fin r)"

definition round64 :: "real \<Rightarrow> pynum" where
  "round64 x =
     (if x = 0 then Fin 0
      else finish (round_to (max \<lfloor>log 2 \<bar>x\<bar>\<rfloor> (- 1022)) x))"

subsection \<open>The operations\<close>

text \<open>The infinity with the sign of \<open>x\<close>; NaN when \<open>x\<close> is zero.\<close>

definition inf_sign :: "real \<Rightarrow> pynum" where
  "inf_sign x = (if 0 < x then PInf else if x < 0 then NInf else NaN)"

text \<open>
  \<open>fneg\<close> serves subtraction only, where a NaN operand comes through as it is.
\<close>

fun fneg :: "pynum \<Rightarrow> pynum" where
  "fneg (Fin x) = Fin (- x)"
| "fneg PInf = NInf"
| "fneg NInf = PInf"
| "fneg NaN = NaN"
| "fneg NaN_other = NaN_other"

fun fadd :: "pynum \<Rightarrow> pynum \<Rightarrow> pynum" where
  "fadd NaN b = NaN"
| "fadd NaN_other b = NaN_other"
| "fadd a NaN = NaN"
| "fadd a NaN_other = NaN_other"
| "fadd (Fin x) (Fin y) = round64 (x + y)"
| "fadd (Fin x) PInf = PInf"
| "fadd (Fin x) NInf = NInf"
| "fadd PInf (Fin y) = PInf"
| "fadd PInf PInf = PInf"
| "fadd PInf NInf = NaN"
| "fadd NInf (Fin y) = NInf"
| "fadd NInf PInf = NaN"
| "fadd NInf NInf = NInf"

definition fsub :: "pynum \<Rightarrow> pynum \<Rightarrow> pynum" where
  "fsub a b = fadd a (fneg b)"

fun fmul :: "pynum \<Rightarrow> pynum \<Rightarrow> pynum" where
  "fmul NaN b = NaN"
| "fmul NaN_other b = NaN_other"
| "fmul a NaN = NaN"
| "fmul a NaN_other = NaN_other"
| "fmul (Fin x) (Fin y) = round64 (x * y)"
| "fmul (Fin x) PInf = inf_sign x"
| "fmul (Fin x) NInf = inf_sign (- x)"
| "fmul PInf (Fin y) = inf_sign y"
| "fmul PInf PInf = PInf"
| "fmul PInf NInf = NInf"
| "fmul NInf (Fin y) = inf_sign (- y)"
| "fmul NInf PInf = NInf"
| "fmul NInf NInf = PInf"

text \<open>
  Division as numpy does it on float64 scalars: it never raises; a zero divisor (read as
  positive zero) gives an infinity, or NaN for \<open>0 / 0\<close>.
\<close>

fun fdiv :: "pynum \<Rightarrow> pynum \<Rightarrow> pynum" where
  "fdiv NaN b = NaN"
| "fdiv NaN_other b = NaN_other"
| "fdiv a NaN = NaN"
| "fdiv a NaN_other = NaN_other"
| "fdiv (Fin x) (Fin y) = (if y = 0 then inf_sign x else round64 (x / y))"
| "fdiv (Fin x) PInf = Fin 0"
| "fdiv (Fin x) NInf = Fin 0"
| "fdiv PInf (Fin y) = (if 0 \<le> y then PInf else NInf)"
| "fdiv PInf PInf = NaN"
| "fdiv PInf NInf = NaN"
| "fdiv NInf (Fin y) = (if 0 \<le> y then NInf else PInf)"
| "fdiv NInf PInf = NaN"
| "fdiv NInf NInf = NaN"

text \<open>
  \<open>np.sqrt\<close>: the square root of a negative number is NaN. numpy reports it with a
  RuntimeWarning and returns; it does not raise. (HOL's \<open>sqrt\<close> is odd, so the
  negative case is written out.)
\<close>

fun np_sqrt :: "pynum \<Rightarrow> pynum" where
  "np_sqrt (Fin x) = (if x < 0 then NaN else round64 (sqrt x))"
| "np_sqrt PInf = PInf"
| "np_sqrt NInf = NaN"
| "np_sqrt NaN = NaN"
| "np_sqrt NaN_other = NaN_other"

text \<open>
  \<open>max(0, x)\<close>: Python's \<open>max\<close> keeps its first argument unless a later one
  compares greater, so the result is \<open>x\<close> when \<open>x > 0\<close> and \<open>0\<close> otherwise,
  also for a NaN.
\<close>

definition max0 :: "pynum \<Rightarrow> pynum" where
  "max0 x = (if py_gt x (Fin 0) then x else Fin 0)"


section \<open>Errors\<close>

datatype error = ValueError string | ZeroDivisionError

text \<open>
  Python's \<open>/\<close> on ints and floats raises ZeroDivisionError on a zero divisor. (When an
  operand is a float64 scalar numpy divides instead, as \<open>fdiv\<close>; the two differ on a
  zero divisor only.)
\<close>

definition py_truediv :: "pynum \<Rightarrow> pynum \<Rightarrow> error + pynum" where
  "py_truediv a b = (if b = Fin 0 then Inl ZeroDivisionError else Inr (fdiv a b))"

section \<open>The numeric library\<close>

text \<open>
  What the program imports and does not define is a parameter: scipy's
  \<open>norm.cdf\<close>, \<open>quad\<close> (which returns the integral and an error estimate) and
  \<open>gammaln\<close>, numpy's \<open>exp\<close>, the power operator \<open>**\<close>, the text of a
  number in an f-string and \<open>float\<close> of a text, which raises ValueError (here
  \<open>None\<close>) on a text that is no number.
\<close>

record lib =
  norm_cdf :: "pynum \<Rightarrow> pynum"
  quad :: "(pynum \<Rightarrow> pynum) \<Rightarrow> pynum \<Rightarrow> pynum \<Rightarrow> pynum \<times> pynum"
  gammaln :: "pynum \<Rightarrow> pynum"
  np_exp :: "pynum \<Rightarrow> pynum"
  pow :: "pynum \<Rightarrow> pynum \<Rightarrow> pynum"
  fstring :: "pynum \<Rightarrow> string"
  float_of :: "string \<Rightarrow> pynum option"

section \<open>Instances and construction\<close>

text \<open>
  An instance of \<open>SPC_Constants\<close>: its two private attributes, and its identity,
  by which \<open>functools.cache\<close> tells instances apart (the class defines neither
  \<open>__eq__\<close> nor \<open>__hash__\<close>).
\<close>

record spc =
  oid :: nat
  sample_size :: pynum
  sigma_limit :: pynum

text \<open>
  \<open>SPC_Constants(n, z)\<close> for the object with identity \<open>i\<close>: \<open>__init__\<close> checks
  \<open>n < 2\<close>, then \<open>z <= 0\<close>, and raises ValueError at the first that holds; the caller
  gets the instance only when neither does.
\<close>

definition SPC_Constants :: "lib \<Rightarrow> nat \<Rightarrow> pynum \<Rightarrow> pynum \<Rightarrow> error + spc" where
  "SPC_Constants l i n z =
     (if py_lt n (Fin 2) then
        Inl (ValueError (''Sample size n must be greater than or equal to 2, not '' @ fstring l n))
      else if py_le z (Fin 0) then
        Inl (ValueError (''z argument must be positive, not '' @ fstring l z))
      else Inr \<lparr>oid = i, sample_size = n, sigma_limit = z\<rparr>)"

text \<open>
  The read-only properties \<open>n\<close> and \<open>z\<close>. (One-letter names are left to
  variables: the properties \<open>n\<close>, \<open>z\<close> and \<open>A\<close> are \<open>get_n\<close>,
  \<open>get_z\<close> and \<open>prop_A\<close> here, and the method \<open>f\<close> is \<open>f_method\<close>.)
\<close>

definition get_n :: "spc \<Rightarrow> pynum" where
  "get_n self = sample_size self"

definition get_z :: "spc \<Rightarrow> pynum" where
  "get_z self = sigma_limit self"

section \<open>State: the cache files and the memo tables\<close>

text \<open>
  The module keeps two kinds of state. \<open>persistent_cache(db_path)\<close> opens the dbm
  file at \<open>db_path\<close> (flag \<open>"c"\<close>: a file that does not exist is created empty) and maps
  texts to texts in it. \<open>functools.cache\<close> keeps one table for each property it
  decorates, keyed by the instance.
\<close>

type_synonym db = "string \<rightharpoonup> string"

datatype pname = P_c5 | P_A | P_A2 | P_A3 | P_B3 | P_B4 | P_B5 | P_B6
  | P_D1 | P_D2 | P_D3 | P_D4 | P_E2 | P_E3

record state =
  files :: "string \<Rightarrow> db"
  memo :: "pname \<Rightarrow> spc \<rightharpoonup> pynum"

text \<open>
  A computation reads and writes the state and returns a number or raises. The state
  it leaves is returned in both cases: a cache entry written before a raise stays.
\<close>

type_synonym 'a m = "state \<Rightarrow> (error + 'a) \<times> state"

definition ret :: "'a \<Rightarrow> 'a m" where
  "ret v s = (Inr v, s)"

definition lift :: "error + 'a \<Rightarrow> 'a m" where
  "lift r s = (r, s)"

definition and_then :: "'a m \<Rightarrow> ('a \<Rightarrow> 'b m) \<Rightarrow> 'b m" where
  "and_then c k s = (case c s of (Inl e, s1) \<Rightarrow> (Inl e, s1) | (Inr v, s1) \<Rightarrow> k v s1)"

subsection \<open>\<open>persistent_cache\<close>\<close>

definition encode :: "lib \<Rightarrow> pynum \<Rightarrow> string" where
  "encode l item = fstring l item"

definition decode :: "lib \<Rightarrow> string \<Rightarrow> error + pynum" where
  "decode l bytes =
     (case float_of l bytes of
        None \<Rightarrow> Inl (ValueError ''could not convert string to float'')
      | Some x \<Rightarrow> Inr x)"

text \<open>
  The wrapper of the decorated method: the key is the text of \<open>self.n\<close>. On a hit the
  stored text is decoded and returned and the method is not run; on a miss the method
  runs and the text of its result is stored under the key.
\<close>

definition persistent_cache :: "lib \<Rightarrow> string \<Rightarrow> (spc \<Rightarrow> pynum m) \<Rightarrow> spc \<Rightarrow> pynum m" where
  "persistent_cache l db_path func self s =
     (let encoded_key = encode l (get_n self) in
      case files s db_path encoded_key of
        Some bytes \<Rightarrow> (decode l bytes, s)
      | None \<Rightarrow>
          (case func self s of
             (Inl e, s1) \<Rightarrow> (Inl e, s1)
           | (Inr v, s1) \<Rightarrow>
               (Inr v, s1\<lparr>files := (files s1)(db_path := (files s1 db_path)(encoded_key \<mapsto> encode l v))\<rparr>)))"

subsection \<open>\<open>functools.cache\<close>\<close>

text \<open>A call that raises leaves no entry.\<close>

definition cache :: "pname \<Rightarrow> (spc \<Rightarrow> pynum m) \<Rightarrow> spc \<Rightarrow> pynum m" where
  "cache p func self s =
     (case memo s p self of
        Some v \<Rightarrow> (Inr v, s)
      | None \<Rightarrow>
          (case func self s of
             (Inl e, s1) \<Rightarrow> (Inl e, s1)
           | (Inr v, s1) \<Rightarrow> (Inr v, s1\<lparr>memo := (memo s1)(p := (memo s1 p)(self \<mapsto> v))\<rparr>)))"

section \<open>The constants\<close>

text \<open>
  For a method behind \<open>persistent_cache\<close>, \<open>d2_func\<close> is the method as it is
  written (the decorator calls it \<open>func\<close>) and \<open>d2\<close> is the property: the method
  inside the wrapper. A property behind \<open>functools.cache\<close> is written in one piece.
\<close>

subsection \<open>d2\<close>

definition d2_integrand :: "lib \<Rightarrow> pynum \<Rightarrow> pynum \<Rightarrow> pynum" where
  "d2_integrand l n x =
     fsub (fsub (Fin 1) (pow l (fsub (Fin 1) (norm_cdf l x)) n)) (pow l (norm_cdf l x) n)"

definition d2_func :: "lib \<Rightarrow> spc \<Rightarrow> pynum m" where
  "d2_func l self =
     (let n = get_n self;
          result = fst (quad l (d2_integrand l n) NInf PInf)
      in ret result)"

definition d2 :: "lib \<Rightarrow> spc \<Rightarrow> pynum m" where
  "d2 l = persistent_cache l ''.cache.d2.dbm'' (d2_func l)"

subsection \<open>d3\<close>

text \<open>The method \<open>f\<close>.\<close>

definition f_method :: "lib \<Rightarrow> spc \<Rightarrow> pynum \<Rightarrow> pynum \<Rightarrow> pynum" where
  "f_method l self x y =
     (let n = get_n self;
          Phi_x = norm_cdf l x;
          Phi_y = norm_cdf l y
      in fadd (fsub (fsub (Fin 1) (pow l Phi_y n)) (pow l (fsub (Fin 1) Phi_x) n))
              (pow l (fsub Phi_y Phi_x) n))"

definition inner_integral :: "lib \<Rightarrow> spc \<Rightarrow> pynum \<Rightarrow> pynum" where
  "inner_integral l self y = fst (quad l (\<lambda>x. f_method l self x y) NInf y)"

text \<open>The outer integral is taken first, then \<open>self.d2\<close> is read.\<close>

definition d3_func :: "lib \<Rightarrow> spc \<Rightarrow> pynum m" where
  "d3_func l self =
     (let outer_integral_value = fst (quad l (\<lambda>y. inner_integral l self y) NInf PInf)
      in and_then (d2 l self) (\<lambda>d2v.
           ret (np_sqrt (fsub (fmul (Fin 2) outer_integral_value) (pow l d2v (Fin 2))))))"

definition d3 :: "lib \<Rightarrow> spc \<Rightarrow> pynum m" where
  "d3 l = persistent_cache l ''.cache.d3.dbm'' (d3_func l)"

subsection \<open>c4 and c5\<close>

text \<open>
  \<open>n / 2\<close> and \<open>(n - 1) / 2\<close> divide by the literal 2 and cannot raise;
  \<open>2 / (n - 1)\<close> raises when \<open>n - 1\<close> is zero.
\<close>

definition c4_func :: "lib \<Rightarrow> spc \<Rightarrow> pynum m" where
  "c4_func l self =
     (let n = get_n self;
          gamma_ratio = np_exp l (fsub (gammaln l (fdiv n (Fin 2)))
                                       (gammaln l (fdiv (fsub n (Fin 1)) (Fin 2))))
      in and_then (lift (py_truediv (Fin 2) (fsub n (Fin 1)))) (\<lambda>q.
           ret (fmul (np_sqrt q) gamma_ratio)))"

definition c4 :: "lib \<Rightarrow> spc \<Rightarrow> pynum m" where
  "c4 l = persistent_cache l ''.cache.c4.dbm'' (c4_func l)"

definition c5 :: "lib \<Rightarrow> spc \<Rightarrow> pynum m" where
  "c5 l = cache P_c5 (\<lambda>self.
     and_then (c4 l self) (\<lambda>c4v.
       ret (np_sqrt (fsub (Fin 1) (pow l c4v (Fin 2))))))"

subsection \<open>The derived constants\<close>

text \<open>
  Each body reads the properties it names from left to right, every read going through
  that property's cache. A divisor \<open>np.sqrt(self.n)\<close> is a float64 scalar, so that
  division is numpy's. The other divisions are modelled as Python's, which raises on a
  zero divisor; where a divisor comes fresh from its method as a float64 scalar, numpy
  divides and returns an infinity or NaN there instead. The two agree on every divisor
  that is not zero.
\<close>

definition prop_A :: "lib \<Rightarrow> spc \<Rightarrow> pynum m" where
  "prop_A l = cache P_A (\<lambda>self.
     ret (fdiv (get_z self) (np_sqrt (get_n self))))"

definition A2 :: "lib \<Rightarrow> spc \<Rightarrow> pynum m" where
  "A2 l = cache P_A2 (\<lambda>self.
     and_then (d2 l self) (\<lambda>d2v.
     and_then (lift (py_truediv (get_z self) d2v)) (\<lambda>q.
       ret (fdiv q (np_sqrt (get_n self))))))"

definition A3 :: "lib \<Rightarrow> spc \<Rightarrow> pynum m" where
  "A3 l = cache P_A3 (\<lambda>self.
     and_then (c4 l self) (\<lambda>c4v.
     and_then (lift (py_truediv (get_z self) c4v)) (\<lambda>q.
       ret (fdiv q (np_sqrt (get_n self))))))"

definition B3 :: "lib \<Rightarrow> spc \<Rightarrow> pynum m" where
  "B3 l = cache P_B3 (\<lambda>self.
     and_then (c4 l self) (\<lambda>c4a.
     and_then (lift (py_truediv (get_z self) c4a)) (\<lambda>q.
     and_then (c4 l self) (\<lambda>c4b.
       ret (max0 (fsub (Fin 1) (fmul q (np_sqrt (fsub (Fin 1) (pow l c4b (Fin 2)))))))))))"

definition B4 :: "lib \<Rightarrow> spc \<Rightarrow> pynum m" where
  "B4 l = cache P_B4 (\<lambda>self.
     and_then (c4 l self) (\<lambda>c4a.
     and_then (lift (py_truediv (get_z self) c4a)) (\<lambda>q.
     and_then (c4 l self) (\<lambda>c4b.
       ret (fadd (Fin 1) (fmul q (np_sqrt (fsub (Fin 1) (pow l c4b (Fin 2))))))))))"

definition B5 :: "lib \<Rightarrow> spc \<Rightarrow> pynum m" where
  "B5 l = cache P_B5 (\<lambda>self.
     and_then (c4 l self) (\<lambda>c4a.
     and_then (c4 l self) (\<lambda>c4b.
       ret (max0 (fsub c4a (fmul (get_z self) (np_sqrt (fsub (Fin 1) (pow l c4b (Fin 2))))))))))"

definition B6 :: "lib \<Rightarrow> spc \<Rightarrow> pynum m" where
  "B6 l = cache P_B6 (\<lambda>self.
     and_then (c4 l self) (\<lambda>c4a.
     and_then (c4 l self) (\<lambda>c4b.
       ret (fadd c4a (fmul (get_z self) (np_sqrt (fsub (Fin 1) (pow l c4b (Fin 2)))))))))"

definition D1 :: "lib \<Rightarrow> spc \<Rightarrow> pynum m" where
  "D1 l = cache P_D1 (\<lambda>self.
     and_then (d2 l self) (\<lambda>d2v.
     and_then (d3 l self) (\<lambda>d3v.
       ret (max0 (fsub d2v (fmul (get_z self) d3v))))))"

definition D2 :: "lib \<Rightarrow> spc \<Rightarrow> pynum m" where
  "D2 l = cache P_D2 (\<lambda>self.
     and_then (d2 l self) (\<lambda>d2v.
     and_then (d3 l self) (\<lambda>d3v.
       ret (fadd d2v (fmul (get_z self) d3v)))))"

definition D3 :: "lib \<Rightarrow> spc \<Rightarrow> pynum m" where
  "D3 l = cache P_D3 (\<lambda>self.
     and_then (d3 l self) (\<lambda>d3v.
     and_then (d2 l self) (\<lambda>d2v.
     and_then (lift (py_truediv (fmul (get_z self) d3v) d2v)) (\<lambda>q.
       ret (max0 (fsub (Fin 1) q))))))"

definition D4 :: "lib \<Rightarrow> spc \<Rightarrow> pynum m" where
  "D4 l = cache P_D4 (\<lambda>self.
     and_then (d3 l self) (\<lambda>d3v.
     and_then (d2 l self) (\<lambda>d2v.
     and_then (lift (py_truediv (fmul (get_z self) d3v) d2v)) (\<lambda>q.
       ret (fadd (Fin 1) q)))))"

definition E2 :: "lib \<Rightarrow> spc \<Rightarrow> pynum m" where
  "E2 l = cache P_E2 (\<lambda>self.
     and_then (d2 l self) (\<lambda>d2v.
       lift (py_truediv (get_z self) d2v)))"

definition E3 :: "lib \<Rightarrow> spc \<Rightarrow> pynum m" where
  "E3 l = cache P_E3 (\<lambda>self.
     and_then (c4 l self) (\<lambda>c4v.
       lift (py_truediv (get_z self) c4v)))"

section \<open>The formulas, and the states the program can be in\<close>

text \<open>
  The value each of the three expensive methods computes for a sample size, written as
  the formula of its docstring over the library: no state, no cache.
\<close>

definition d2_val :: "lib \<Rightarrow> pynum \<Rightarrow> pynum" where
  "d2_val l n =
     fst (quad l (\<lambda>x. fsub (fsub (Fin 1) (pow l (fsub (Fin 1) (norm_cdf l x)) n))
                           (pow l (norm_cdf l x) n))
            NInf PInf)"

definition f_val :: "lib \<Rightarrow> pynum \<Rightarrow> pynum \<Rightarrow> pynum \<Rightarrow> pynum" where
  "f_val l n x y =
     fadd (fsub (fsub (Fin 1) (pow l (norm_cdf l y) n)) (pow l (fsub (Fin 1) (norm_cdf l x)) n))
          (pow l (fsub (norm_cdf l y) (norm_cdf l x)) n)"

definition inner_val :: "lib \<Rightarrow> pynum \<Rightarrow> pynum \<Rightarrow> pynum" where
  "inner_val l n y = fst (quad l (\<lambda>x. f_val l n x y) NInf y)"

text \<open>The number under the square root of d3.\<close>

definition d3_radicand :: "lib \<Rightarrow> pynum \<Rightarrow> pynum" where
  "d3_radicand l n =
     fsub (fmul (Fin 2) (fst (quad l (\<lambda>y. inner_val l n y) NInf PInf)))
          (pow l (d2_val l n) (Fin 2))"

definition d3_val :: "lib \<Rightarrow> pynum \<Rightarrow> pynum" where
  "d3_val l n = np_sqrt (d3_radicand l n)"

definition c4_val :: "lib \<Rightarrow> pynum \<Rightarrow> pynum" where
  "c4_val l n =
     fmul (np_sqrt (fdiv (Fin 2) (fsub n (Fin 1))))
          (np_exp l (fsub (gammaln l (fdiv n (Fin 2))) (gammaln l (fdiv (fsub n (Fin 1)) (Fin 2)))))"

definition c5_val :: "lib \<Rightarrow> pynum \<Rightarrow> pynum" where
  "c5_val l n = np_sqrt (fsub (Fin 1) (pow l (c4_val l n) (Fin 2)))"

text \<open>What a cache file should hold under the key of a sample size.\<close>

definition cache_files :: "string set" where
  "cache_files = {''.cache.d2.dbm'', ''.cache.d3.dbm'', ''.cache.c4.dbm''}"

definition stored_val :: "lib \<Rightarrow> string \<Rightarrow> pynum \<Rightarrow> pynum" where
  "stored_val l db_path n =
     (if db_path = ''.cache.d2.dbm'' then d2_val l n
      else if db_path = ''.cache.d3.dbm'' then d3_val l n
      else c4_val l n)"

text \<open>
  What a memo table should hold for an instance: the body of the property, over the
  three values above. A body that divides by a zero \<open>c4\<close> or \<open>d2\<close> raises.
\<close>

definition rbind :: "error + 'a \<Rightarrow> ('a \<Rightarrow> error + 'b) \<Rightarrow> error + 'b" where
  "rbind r k = (case r of Inl e \<Rightarrow> Inl e | Inr v \<Rightarrow> k v)"

fun expected :: "lib \<Rightarrow> pname \<Rightarrow> spc \<Rightarrow> error + pynum" where
  "expected l P_c5 self = Inr (c5_val l (get_n self))"
| "expected l P_A self = Inr (fdiv (get_z self) (np_sqrt (get_n self)))"
| "expected l P_A2 self =
     rbind (py_truediv (get_z self) (d2_val l (get_n self))) (\<lambda>q.
       Inr (fdiv q (np_sqrt (get_n self))))"
| "expected l P_A3 self =
     rbind (py_truediv (get_z self) (c4_val l (get_n self))) (\<lambda>q.
       Inr (fdiv q (np_sqrt (get_n self))))"
| "expected l P_B3 self =
     rbind (py_truediv (get_z self) (c4_val l (get_n self))) (\<lambda>q.
       Inr (max0 (fsub (Fin 1) (fmul q (c5_val l (get_n self))))))"
| "expected l P_B4 self =
     rbind (py_truediv (get_z self) (c4_val l (get_n self))) (\<lambda>q.
       Inr (fadd (Fin 1) (fmul q (c5_val l (get_n self)))))"
| "expected l P_B5 self =
     Inr (max0 (fsub (c4_val l (get_n self)) (fmul (get_z self) (c5_val l (get_n self)))))"
| "expected l P_B6 self =
     Inr (fadd (c4_val l (get_n self)) (fmul (get_z self) (c5_val l (get_n self))))"
| "expected l P_D1 self =
     Inr (max0 (fsub (d2_val l (get_n self)) (fmul (get_z self) (d3_val l (get_n self)))))"
| "expected l P_D2 self =
     Inr (fadd (d2_val l (get_n self)) (fmul (get_z self) (d3_val l (get_n self))))"
| "expected l P_D3 self =
     rbind (py_truediv (fmul (get_z self) (d3_val l (get_n self))) (d2_val l (get_n self))) (\<lambda>q.
       Inr (max0 (fsub (Fin 1) q)))"
| "expected l P_D4 self =
     rbind (py_truediv (fmul (get_z self) (d3_val l (get_n self))) (d2_val l (get_n self))) (\<lambda>q.
       Inr (fadd (Fin 1) q))"
| "expected l P_E2 self = py_truediv (get_z self) (d2_val l (get_n self))"
| "expected l P_E3 self = py_truediv (get_z self) (c4_val l (get_n self))"

text \<open>
  A state is consistent when every entry of the three cache files decodes to the value
  of its method for the sample size of its key, and every memo entry is the value of
  its property for its instance. The program starts from empty memo tables and, on a
  fresh directory, from empty cache files.
\<close>

definition consistent :: "lib \<Rightarrow> state \<Rightarrow> bool" where
  "consistent l s \<longleftrightarrow>
     (\<forall>db_path n b. db_path \<in> cache_files \<longrightarrow> files s db_path (encode l n) = Some b \<longrightarrow>
        decode l b = Inr (stored_val l db_path n))
     \<and> (\<forall>p self v. memo s p self = Some v \<longrightarrow> expected l p self = Inr v)"

definition init_state :: state where
  "init_state = \<lparr>files = (\<lambda>db_path. Map.empty), memo = (\<lambda>p. Map.empty)\<rparr>"

text \<open>
  What the proofs ask of the text of numbers, for one sample size: no other number has
  the text of \<open>n\<close>, and the texts of the three values computed for \<open>n\<close> read back
  as those values. (Python writes a float that is not a NaN as the shortest text that
  \<open>float\<close> reads back to the same float. The text of a NaN is \<open>nan\<close>, and
  \<open>float\<close> of it is a NaN that need not have the bits of the one written.)
\<close>

definition roundtrip :: "lib \<Rightarrow> pynum \<Rightarrow> bool" where
  "roundtrip l v \<longleftrightarrow> decode l (encode l v) = Inr v"

definition codec_ok :: "lib \<Rightarrow> pynum \<Rightarrow> bool" where
  "codec_ok l n \<longleftrightarrow>
     (\<forall>n'. encode l n' = encode l n \<longrightarrow> n' = n)
     \<and> roundtrip l (d2_val l n) \<and> roundtrip l (d3_val l n) \<and> roundtrip l (c4_val l n)"

text \<open>
  A computation is steady at a result when, from every consistent state, it returns
  that result and leaves a consistent state.
\<close>

definition steady :: "lib \<Rightarrow> 'a m \<Rightarrow> error + 'a \<Rightarrow> bool" where
  "steady l c r \<longleftrightarrow> (\<forall>s. consistent l s \<longrightarrow> fst (c s) = r \<and> consistent l (snd (c s)))"

section \<open>Reading again\<close>

text \<open>
  One state grows into another when every entry of a cache file and of a memo table is
  still there, unchanged. A computation extends the state when it only grows it. A read
  is stable when, once it has returned a value whose text reads back, it returns that
  value from every state the state it left has grown into, and leaves such a state as
  it is; and when it extends the state.
\<close>

definition grows :: "state \<Rightarrow> state \<Rightarrow> bool" where
  "grows s t \<longleftrightarrow>
     (\<forall>db_path k b. files s db_path k = Some b \<longrightarrow> files t db_path k = Some b)
     \<and> (\<forall>p self v. memo s p self = Some v \<longrightarrow> memo t p self = Some v)"

definition extends :: "'a m \<Rightarrow> bool" where
  "extends c \<longleftrightarrow> (\<forall>s. grows s (snd (c s)))"

definition stable_read :: "(pynum \<Rightarrow> bool) \<Rightarrow> pynum m \<Rightarrow> bool" where
  "stable_read reads_back c \<longleftrightarrow>
     (\<forall>s v s1 t. c s = (Inr v, s1) \<longrightarrow> reads_back v \<longrightarrow> grows s1 t \<longrightarrow> c t = (Inr v, t))
     \<and> extends c"

text \<open>
  What a later read through a cache file returns, whatever the text of numbers does.
  Once a read has returned a value, a read from a state that the state it left has grown
  into returns that value when the first read was served from the file under the key,
  and the decoded text of the value when the first read found no entry and stored one.
  Later reads agree when any two of them return the same.
\<close>

definition cached_read :: "lib \<Rightarrow> string \<Rightarrow> string \<Rightarrow> pynum m \<Rightarrow> bool" where
  "cached_read l db_path k c \<longleftrightarrow>
     (\<forall>s v s1 t. c s = (Inr v, s1) \<longrightarrow> grows s1 t \<longrightarrow>
        c t = ((if files s db_path k = None then decode l (encode l v) else Inr v), t))"

definition later_reads_agree :: "pynum m \<Rightarrow> bool" where
  "later_reads_agree c \<longleftrightarrow>
     (\<forall>s v s1 t u. c s = (Inr v, s1) \<longrightarrow> grows s1 t \<longrightarrow> grows s1 u \<longrightarrow> fst (c t) = fst (c u))"

section \<open>A small library for concrete runs\<close>

text \<open>
  A stand-in for the numeric library, simple enough to evaluate: a constant
  \<open>norm.cdf\<close>, a \<open>**\<close> that squares, a log-gamma and an exponential that are
  constant, a one-point quadrature rule (weight 2 on the whole line, 1 on a half line),
  and texts for the few numbers the runs below write and read back. The text \<open>nan\<close>
  reads back as the NaN of the operations here.
\<close>

definition demo_fstring :: "pynum \<Rightarrow> string" where
  "demo_fstring v =
     (if v = Fin 3 then ''3''
      else if v = Fin 0 then ''0''
      else if v = Fin 1 then ''1.0''
      else if v = Fin (1 / 2) then ''0.5''
      else if is_nan v then ''nan''
      else ''?'')"

definition demo_float_of :: "string \<Rightarrow> pynum option" where
  "demo_float_of t =
     (if t = ''3'' then Some (Fin 3)
      else if t = ''0'' then Some (Fin 0)
      else if t = ''1.0'' then Some (Fin 1)
      else if t = ''0.5'' then Some (Fin (1 / 2))
      else if t = ''nan'' then Some NaN
      else None)"

definition demo_lib :: lib where
  "demo_lib =
     \<lparr>norm_cdf = (\<lambda>x. Fin (1 / 2)),
      quad = (\<lambda>g a b. (if b = PInf then fmul (Fin 2) (g (Fin 0)) else g (Fin 0), Fin 0)),
      gammaln = (\<lambda>x. Fin 0),
      np_exp = (\<lambda>x. Fin (1 / 2)),
      pow = (\<lambda>a b. fmul a a),
      fstring = demo_fstring,
      float_of = demo_float_of\<rparr>"

text \<open>
  The same library with a quadrature rule that is badly off on half lines (it returns 0
  there), so that the number under the square root of d3 comes out negative.
\<close>

definition coarse_lib :: lib where
  "coarse_lib = demo_lib\<lparr>quad := (\<lambda>g a b. (if b = PInf then g (Fin 0) else Fin 0, Fin 0))\<rparr>"

text \<open>An instance with \<open>n = 3\<close> and \<open>z = 3\<close>, and the states two reads of it leave.\<close>

definition demo_spc :: spc where
  "demo_spc = \<lparr>oid = 0, sample_size = Fin 3, sigma_limit = Fin 3\<rparr>"

definition demo_after_d3 :: state where
  "demo_after_d3 = snd (d3 demo_lib demo_spc init_state)"

definition demo_after_D1 :: state where
  "demo_after_D1 = snd (D1 demo_lib demo_spc demo_after_d3)"






text \<open>
  A very large sample size: the float \<open>2.0 ** 1023\<close>, written
  \<open>8.98846567431158e+307\<close>. The library for it has a log-gamma that overflows as
  scipy's does: the log-gamma of a number from about \<open>2.6e305\<close> on is above the largest
  float, and \<open>gammaln\<close> returns \<open>inf\<close> there (here from \<open>2 ^ 1015\<close>, about
  \<open>3.5e305\<close>, on; below, the constant of the small library). Its exponential returns
  a NaN as it is, as \<open>np.exp\<close> does. The text \<open>nan\<close> reads back as a NaN with
  other bits than the NaN of the operations, as on x86-64.
\<close>

definition n_max :: pynum where
  "n_max = Fin (2 ^ 1023)"

definition big_fstring :: "pynum \<Rightarrow> string" where
  "big_fstring v = (if v = n_max then ''8.98846567431158e+307'' else demo_fstring v)"

definition big_float_of :: "string \<Rightarrow> pynum option" where
  "big_float_of t =
     (if t = ''8.98846567431158e+307'' then Some n_max
      else if t = ''nan'' then Some NaN_other
      else demo_float_of t)"

definition overflow_lib :: lib where
  "overflow_lib =
     demo_lib\<lparr>gammaln := (\<lambda>x. if py_ge x (Fin (2 ^ 1015)) then PInf else Fin 0),
              np_exp := (\<lambda>x. if is_nan x then x else Fin (1 / 2)),
              fstring := big_fstring,
              float_of := big_float_of\<rparr>"

text \<open>The instance with that sample size, and the state its first read of c4 leaves.\<close>

definition huge_spc :: spc where
  "huge_spc = \<lparr>oid = 0, sample_size = n_max, sigma_limit = Fin 3\<rparr>"

definition huge_after_c4 :: state where
  "huge_after_c4 =
     \<lparr>files = (\<lambda>db_path. Map.empty)(''.cache.c4.dbm'' := [''8.98846567431158e+307'' \<mapsto> ''nan'']),
      memo = (\<lambda>p. Map.empty)\<rparr>"

section \<open>Rounding\<close>

text \<open>
  How \<open>round64\<close> is evaluated: find the binade of the number, then the nearest
  multiple of the spacing there.
\<close>

lemma two_powr_int: "2 powr real_of_int e = (2::real) powi e"
  by (rule powr_real_of_int') simp_all

lemma floor_log2_eq:
  assumes "2 powi e \<le> x" and "x < 2 powi (e + 1)"
  shows "\<lfloor>log 2 x\<rfloor> = e"
proof -
  have "0 < (2::real) powi e" by simp
  then have pos: "0 < x" using assms(1) by linarith
  have "2 powr (of_int e) \<le> x" "x < 2 powr (of_int e + 1)"
    using assms two_powr_int [of e] two_powr_int [of "e + 1"] by simp_all
  then show ?thesis
    using pos floor_log_eq_powr_iff [of x 2 e] by simp
qed

lemma round64_eval:
  assumes "2 powi e \<le> \<bar>x\<bar>" and "\<bar>x\<bar> < 2 powi (e + 1)"
  shows "round64 x = finish (round_to (max e (- 1022)) x)"
proof -
  have "0 < (2::real) powi e" by simp
  then have "x \<noteq> 0" using assms(1) by linarith
  moreover have "\<lfloor>log 2 \<bar>x\<bar>\<rfloor> = e" by (rule floor_log2_eq [OF assms])
  ultimately show ?thesis by (simp add: round64_def)
qed

lemma rne_eqI:
  assumes "of_int m - 1 / 2 < y" and "y < of_int m + 1 / 2"
  shows "rne y = m"
proof -
  consider "\<lfloor>y\<rfloor> = m" | "\<lfloor>y\<rfloor> = m - 1"
    using assms by linarith
  then show ?thesis
  proof cases
    case 1
    then have "y - of_int m < 1 / 2" using assms by linarith
    with 1 show ?thesis by (simp add: rne_def)
  next
    case 2
    then have "1 / 2 < y - of_int (m - 1)" using assms by simp
    with 2 show ?thesis by (simp add: rne_def Let_def)
  qed
qed

lemma rne_of_int [simp]: "rne (of_int m) = m"
  by (simp add: rne_def)


lemma rne_numeral [simp]: "rne (numeral k) = numeral k"
  using rne_of_int [of "numeral k"] by simp

lemma round64_exact:
  assumes "2 powi e \<le> \<bar>x\<bar>" and "\<bar>x\<bar> < 2 powi (e + 1)"
    and "- 1022 \<le> e" and "e \<le> 1023"
    and "x / 2 powi (e - 52) = of_int m"
  shows "round64 x = Fin x"
proof -
  have u: "(2::real) powi (e - 52) \<noteq> 0" by simp
  have "round_to e x = of_int m * 2 powi (e - 52)"
    using assms(5) by (simp add: round_to_def)
  also have "\<dots> = x" using assms(5) u by (simp add: field_simps)
  finally have r: "round_to (max e (- 1022)) x = x" using assms(3) by (simp add: max_def)
  have "(2::real) powi (e + 1) \<le> 2 powi 1024"
    using assms(4) by (intro power_int_increasing) simp_all
  then have "\<bar>x\<bar> < overflow_at" using assms(2) by (simp add: overflow_at_def)
  then have "\<not> overflow_at \<le> x" "\<not> x \<le> - overflow_at" by linarith+
  then show ?thesis
    using round64_eval [OF assms(1,2)] r by (simp add: finish_def)
qed

lemma powi_mult: "(2::real) powi a * 2 powi b = 2 powi (a + b)"
  by (simp add: power_int_add)

lemma round64_near:
  assumes "2 powi e \<le> \<bar>x\<bar>" and "\<bar>x\<bar> < 2 powi (e + 1)"
    and "- 1022 \<le> e" and "e \<le> 1022"
    and "of_int m - 1 / 2 < x / 2 powi (e - 52)" and "x / 2 powi (e - 52) < of_int m + 1 / 2"
  shows "round64 x = Fin (of_int m * 2 powi (e - 52))"
proof -
  define u :: real where "u = 2 powi (e - 52)"
  define c :: real where "c = 2 powi 53"
  have u: "0 < u" by (simp add: u_def)
  have cu: "c * u = 2 powi (e + 1)"
    unfolding c_def u_def powi_mult by (simp add: add.commute)
  have m: "rne (x / u) = m" unfolding u_def by (rule rne_eqI [OF assms(5,6)])
  then have r: "round_to (max e (- 1022)) x = of_int m * u"
    using assms(3) by (simp add: round_to_def max_def u_def)
  have "\<bar>x\<bar> < c * u" using assms(2) cu by simp
  then have xc: "\<bar>x / u\<bar> < c" using u by (simp add: field_simps)
  have "of_int m - 1 / 2 < x / u" "x / u < of_int m + 1 / 2"
    using assms(5,6) by (simp_all only: u_def)
  with xc have "\<bar>of_int m :: real\<bar> < c + 1 / 2" by linarith
  then have "real_of_int \<bar>m\<bar> < real_of_int (2 ^ 53 + 1)" by (simp add: c_def)
  then have "\<bar>m\<bar> < 2 ^ 53 + 1" by (simp only: of_int_less_iff)
  then have "\<bar>m\<bar> \<le> 2 ^ 53" by simp
  then have "real_of_int \<bar>m\<bar> \<le> real_of_int (2 ^ 53)" by (simp only: of_int_le_iff)
  then have "\<bar>of_int m :: real\<bar> \<le> c" by (simp add: c_def)
  then have "\<bar>of_int m * u\<bar> \<le> c * u"
    using u by (simp add: abs_mult mult_right_mono)
  also have "\<dots> \<le> 2 powi 1023"
    unfolding cu using assms(4) by (intro power_int_increasing) simp_all
  also have "\<dots> < overflow_at" by (simp add: overflow_at_def)
  finally have "\<bar>of_int m * u\<bar> < overflow_at" .
  then have "\<not> overflow_at \<le> of_int m * u" "\<not> of_int m * u \<le> - overflow_at" by linarith+
  then show ?thesis
    using round64_eval [OF assms(1,2)] r by (simp add: finish_def u_def)
qed



lemma round64_not_nan [simp]: "round64 x \<noteq> NaN" "round64 x \<noteq> NaN_other"
  by (simp_all add: round64_def finish_def)

text \<open>The float64 values of the small numbers the concrete runs meet.\<close>

lemma round64_0 [simp]: "round64 0 = Fin 0"
  by (simp add: round64_def)

lemma round64_quarter [simp]: "round64 (1 / 4) = Fin (1 / 4)"
  by (rule round64_exact [where e = "- 2" and m = "2 ^ 52"]) simp_all

lemma round64_minus_quarter [simp]: "round64 (- (1 / 4)) = Fin (- (1 / 4))"
  by (rule round64_exact [where e = "- 2" and m = "- (2 ^ 52)"]) simp_all

lemma round64_half [simp]: "round64 (1 / 2) = Fin (1 / 2)"
  by (rule round64_exact [where e = "- 1" and m = "2 ^ 52"]) simp_all

lemma round64_three_quarters [simp]: "round64 (3 / 4) = Fin (3 / 4)"
  by (rule round64_exact [where e = "- 1" and m = "3 * 2 ^ 51"]) simp_all

lemma round64_1 [simp]: "round64 1 = Fin 1"
  by (rule round64_exact [where e = 0 and m = "2 ^ 52"]) simp_all

lemma round64_three_halves [simp]: "round64 (3 / 2) = Fin (3 / 2)"
  by (rule round64_exact [where e = 0 and m = "3 * 2 ^ 51"]) simp_all

lemma round64_2 [simp]: "round64 2 = Fin 2"
  by (rule round64_exact [where e = 1 and m = "2 ^ 52"]) simp_all

lemma round64_3 [simp]: "round64 3 = Fin 3"
  by (rule round64_exact [where e = 1 and m = "3 * 2 ^ 51"]) simp_all

lemma round64_4 [simp]: "round64 4 = Fin 4"
  by (rule round64_exact [where e = 2 and m = "2 ^ 52"]) simp_all

lemma round64_6 [simp]: "round64 6 = Fin 6"
  by (rule round64_exact [where e = 2 and m = "3 * 2 ^ 51"]) simp_all

lemma round64_minus_2 [simp]: "round64 (- 2) = Fin (- 2)"
  by (rule round64_exact [where e = 1 and m = "- (2 ^ 52)"]) simp_all


section \<open>Arithmetic\<close>

lemma is_nan_simps [simp]:
  "is_nan NaN" "is_nan NaN_other" "\<not> is_nan (Fin x)" "\<not> is_nan PInf" "\<not> is_nan NInf"
  by (simp_all add: is_nan_def)

lemma py_lt_NaN [simp]: "\<not> py_lt a NaN"
  by (cases a) simp_all

lemma py_lt_NaN_other [simp]: "\<not> py_lt a NaN_other"
  by (cases a) simp_all

lemma np_sqrt_not_other: "np_sqrt (Fin x) \<noteq> NaN_other"
  by simp

lemma fmul_NaN_right: "a \<noteq> NaN_other \<Longrightarrow> fmul a NaN = NaN"
  by (cases a) simp_all

lemma fsub_inf_inf: "fsub PInf PInf = NaN"
  by (simp add: fsub_def)

lemma np_sqrt_negative: "py_lt r (Fin 0) \<Longrightarrow> np_sqrt r = NaN"
  by (cases r) simp_all





section \<open>Consistency is kept\<close>

text \<open>
  The empty state is consistent, and every property is steady: from a consistent state it
  returns the value of its formula, through whatever the caches hold, and leaves a
  consistent state.
\<close>

lemma steady_ret: "steady l (ret v) (Inr v)"
  by (simp add: steady_def ret_def)

lemma steady_lift: "steady l (lift r) r"
  by (simp add: steady_def lift_def)

lemma steady_and_then:
  assumes c: "steady l c r"
    and k: "\<And>v. r = Inr v \<Longrightarrow> steady l (k v) (g v)"
  shows "steady l (and_then c k) (rbind r g)"
  unfolding steady_def
proof (intro allI impI)
  fix s assume s: "consistent l s"
  obtain r1 s1 where cs: "c s = (r1, s1)" by (cases "c s")
  from c s cs have r1: "r1 = r" and s1: "consistent l s1"
    by (auto simp: steady_def)
  show "fst (and_then c k s) = rbind r g \<and> consistent l (snd (and_then c k s))"
  proof (cases r)
    case (Inl e)
    with cs r1 s1 show ?thesis by (simp add: and_then_def rbind_def)
  next
    case (Inr v)
    from k [OF Inr] s1 have "fst (k v s1) = g v \<and> consistent l (snd (k v s1))"
      by (simp add: steady_def)
    with cs r1 Inr show ?thesis by (simp add: and_then_def rbind_def split: prod.splits sum.splits)
  qed
qed

lemma steady_and_then_val:
  assumes "steady l c (Inr v)" and "steady l (k v) r"
  shows "steady l (and_then c k) r"
  using steady_and_then [OF assms(1), of k "\<lambda>_. r"] assms(2) by (simp add: rbind_def)

lemma steady_fst: "steady l c r \<Longrightarrow> consistent l s \<Longrightarrow> fst (c s) = r"
  by (simp add: steady_def)

lemma steady_snd: "steady l c r \<Longrightarrow> consistent l s \<Longrightarrow> consistent l (snd (c s))"
  by (simp add: steady_def)

lemma consistent_init: "consistent l init_state"
  by (simp add: consistent_def init_state_def)

lemma steady_persistent_cache:
  assumes p: "db_path \<in> cache_files"
    and key: "\<forall>n'. encode l n' = encode l (get_n self) \<longrightarrow> n' = get_n self"
    and rt: "roundtrip l (stored_val l db_path (get_n self))"
    and body: "steady l (func self) (Inr (stored_val l db_path (get_n self)))"
  shows "steady l (persistent_cache l db_path func self) (Inr (stored_val l db_path (get_n self)))"
  unfolding steady_def
proof (intro allI impI)
  fix s assume s: "consistent l s"
  let ?k = "encode l (get_n self)" and ?v = "stored_val l db_path (get_n self)"
  let ?c = "persistent_cache l db_path func self"
  show "fst (?c s) = Inr ?v \<and> consistent l (snd (?c s))"
  proof (cases "files s db_path ?k")
    case (Some b)
    with s p have "decode l b = Inr ?v" by (auto simp: consistent_def)
    with Some s show ?thesis by (simp add: persistent_cache_def)
  next
    case None
    obtain r1 s1 where fs: "func self s = (r1, s1)" by (cases "func self s")
    from body s fs have r1: "r1 = Inr ?v" and s1: "consistent l s1"
      by (auto simp: steady_def)
    let ?s2 = "s1\<lparr>files := (files s1)(db_path := (files s1 db_path)(?k \<mapsto> encode l ?v))\<rparr>"
    have "consistent l ?s2"
      unfolding consistent_def
    proof (intro conjI allI impI)
      fix q n b assume q: "q \<in> cache_files" and e: "files ?s2 q (encode l n) = Some b"
      show "decode l b = Inr (stored_val l q n)"
      proof (cases "q = db_path \<and> encode l n = ?k")
        case True
        with key have "n = get_n self" by blast
        with True e rt show ?thesis by (simp add: roundtrip_def)
      next
        case False
        with e have "files s1 q (encode l n) = Some b" by (auto split: if_splits)
        with s1 q show ?thesis by (auto simp: consistent_def)
      qed
    next
      fix pn x v assume "memo ?s2 pn x = Some v"
      with s1 show "expected l pn x = Inr v" by (simp add: consistent_def)
    qed
    with None fs r1 show ?thesis by (simp add: persistent_cache_def)
  qed
qed

lemma steady_cache:
  assumes body: "steady l (func self) (expected l p self)"
  shows "steady l (cache p func self) (expected l p self)"
  unfolding steady_def
proof (intro allI impI)
  fix s assume s: "consistent l s"
  show "fst (cache p func self s) = expected l p self \<and> consistent l (snd (cache p func self s))"
  proof (cases "memo s p self")
    case (Some v)
    with s have "expected l p self = Inr v" by (simp add: consistent_def)
    with Some s show ?thesis by (simp add: cache_def)
  next
    case None
    obtain r1 s1 where fs: "func self s = (r1, s1)" by (cases "func self s")
    from body s fs have r1: "r1 = expected l p self" and s1: "consistent l s1"
      by (auto simp: steady_def)
    show ?thesis
    proof (cases r1)
      case (Inl e)
      with r1 have "expected l p self = Inl e" by simp
      with None fs r1 s1 show ?thesis by (simp add: cache_def)
    next
      case (Inr v)
      with r1 have e: "expected l p self = Inr v" by simp
      let ?s2 = "s1\<lparr>memo := (memo s1)(p := (memo s1 p)(self \<mapsto> v))\<rparr>"
      have "consistent l ?s2"
        using s1 e by (auto simp: consistent_def)
      with None fs r1 e show ?thesis by (simp add: cache_def)
    qed
  qed
qed

lemma persistent_cache_miss:
  assumes "files s db_path (encode l (get_n self)) = None"
    and "fst (persistent_cache l db_path func self s) = Inr v"
  shows "files (snd (persistent_cache l db_path func self s)) db_path (encode l (get_n self))
           = Some (encode l v)"
  using assms by (auto simp: persistent_cache_def split: prod.splits sum.splits)



lemma f_method_eq: "f_method l self x y = f_val l (get_n self) x y"
  by (simp add: f_method_def f_val_def Let_def)

lemma inner_integral_eq: "inner_integral l self = inner_val l (get_n self)"
  by (rule ext) (simp add: inner_integral_def inner_val_def f_method_eq)

lemma steady_d2:
  assumes "codec_ok l (get_n self)"
  shows "steady l (d2 l self) (Inr (d2_val l (get_n self)))"
proof -
  have b: "d2_func l self = ret (d2_val l (get_n self))"
    by (simp add: d2_func_def d2_integrand_def [abs_def] d2_val_def Let_def)
  have "steady l (persistent_cache l ''.cache.d2.dbm'' (d2_func l) self)
          (Inr (stored_val l ''.cache.d2.dbm'' (get_n self)))"
    using assms
    by (intro steady_persistent_cache)
      (simp_all add: cache_files_def codec_ok_def stored_val_def b steady_ret)
  then show ?thesis by (simp add: d2_def stored_val_def)
qed

lemma steady_d3:
  assumes "codec_ok l (get_n self)"
  shows "steady l (d3 l self) (Inr (d3_val l (get_n self)))"
proof -
  have b: "steady l (d3_func l self) (Inr (d3_val l (get_n self)))"
    unfolding d3_func_def Let_def inner_integral_eq d3_val_def d3_radicand_def
    by (rule steady_and_then_val [OF steady_d2 [OF assms]]) (rule steady_ret)
  have "steady l (persistent_cache l ''.cache.d3.dbm'' (d3_func l) self)
          (Inr (stored_val l ''.cache.d3.dbm'' (get_n self)))"
    using assms b
    by (intro steady_persistent_cache)
      (simp_all add: cache_files_def codec_ok_def stored_val_def)
  then show ?thesis by (simp add: d3_def stored_val_def)
qed

lemma steady_c4:
  assumes "codec_ok l (get_n self)" and "fsub (get_n self) (Fin 1) \<noteq> Fin 0"
  shows "steady l (c4 l self) (Inr (c4_val l (get_n self)))"
proof -
  have "c4_func l self = ret (c4_val l (get_n self))"
    using assms(2)
    by (simp add: c4_func_def c4_val_def py_truediv_def and_then_def lift_def
        ret_def fun_eq_iff Let_def)
  then have b: "steady l (c4_func l self) (Inr (c4_val l (get_n self)))"
    by (simp add: steady_ret)
  have "steady l (persistent_cache l ''.cache.c4.dbm'' (c4_func l) self)
          (Inr (stored_val l ''.cache.c4.dbm'' (get_n self)))"
    using assms b
    by (intro steady_persistent_cache)
      (simp_all add: cache_files_def codec_ok_def stored_val_def)
  then show ?thesis by (simp add: c4_def stored_val_def)
qed

lemma steady_c5:
  assumes "codec_ok l (get_n self)" and "fsub (get_n self) (Fin 1) \<noteq> Fin 0"
  shows "steady l (c5 l self) (expected l P_c5 self)"
  unfolding c5_def
proof (rule steady_cache)
  show "steady l (and_then (c4 l self) (\<lambda>c4v. ret (np_sqrt (fsub (Fin 1) (pow l c4v (Fin 2))))))
          (expected l P_c5 self)"
    unfolding expected.simps c5_val_def
    by (rule steady_and_then_val [OF steady_c4 [OF assms]]) (rule steady_ret)
qed

lemma steady_A: "steady l (prop_A l self) (expected l P_A self)"
  unfolding prop_A_def by (rule steady_cache) (simp add: steady_ret)

lemma steady_A2:
  assumes "codec_ok l (get_n self)"
  shows "steady l (A2 l self) (expected l P_A2 self)"
  unfolding A2_def
  apply (rule steady_cache)
  apply (simp only: expected.simps c5_val_def)
  apply (intro steady_and_then_val [OF steady_d2 [OF assms(1)]] steady_and_then [OF steady_lift] steady_ret steady_lift)
  done

lemma steady_A3:
  assumes "codec_ok l (get_n self)" and "fsub (get_n self) (Fin 1) \<noteq> Fin 0"
  shows "steady l (A3 l self) (expected l P_A3 self)"
  unfolding A3_def
  apply (rule steady_cache)
  apply (simp only: expected.simps c5_val_def)
  apply (intro steady_and_then_val [OF steady_c4 [OF assms]] steady_and_then [OF steady_lift] steady_ret steady_lift)
  done

lemma steady_B3:
  assumes "codec_ok l (get_n self)" and "fsub (get_n self) (Fin 1) \<noteq> Fin 0"
  shows "steady l (B3 l self) (expected l P_B3 self)"
  unfolding B3_def
  apply (rule steady_cache)
  apply (simp only: expected.simps c5_val_def)
  apply (intro steady_and_then_val [OF steady_c4 [OF assms]] steady_and_then [OF steady_lift] steady_ret steady_lift)
  done

lemma steady_B4:
  assumes "codec_ok l (get_n self)" and "fsub (get_n self) (Fin 1) \<noteq> Fin 0"
  shows "steady l (B4 l self) (expected l P_B4 self)"
  unfolding B4_def
  apply (rule steady_cache)
  apply (simp only: expected.simps c5_val_def)
  apply (intro steady_and_then_val [OF steady_c4 [OF assms]] steady_and_then [OF steady_lift] steady_ret steady_lift)
  done

lemma steady_B5:
  assumes "codec_ok l (get_n self)" and "fsub (get_n self) (Fin 1) \<noteq> Fin 0"
  shows "steady l (B5 l self) (expected l P_B5 self)"
  unfolding B5_def
  apply (rule steady_cache)
  apply (simp only: expected.simps c5_val_def)
  apply (intro steady_and_then_val [OF steady_c4 [OF assms]] steady_and_then [OF steady_lift] steady_ret steady_lift)
  done

lemma steady_B6:
  assumes "codec_ok l (get_n self)" and "fsub (get_n self) (Fin 1) \<noteq> Fin 0"
  shows "steady l (B6 l self) (expected l P_B6 self)"
  unfolding B6_def
  apply (rule steady_cache)
  apply (simp only: expected.simps c5_val_def)
  apply (intro steady_and_then_val [OF steady_c4 [OF assms]] steady_and_then [OF steady_lift] steady_ret steady_lift)
  done

lemma steady_D1:
  assumes "codec_ok l (get_n self)"
  shows "steady l (D1 l self) (expected l P_D1 self)"
  unfolding D1_def
  apply (rule steady_cache)
  apply (simp only: expected.simps c5_val_def)
  apply (intro steady_and_then_val [OF steady_d2 [OF assms(1)]] steady_and_then_val [OF steady_d3 [OF assms(1)]] steady_and_then [OF steady_lift] steady_ret steady_lift)
  done

lemma steady_D2:
  assumes "codec_ok l (get_n self)"
  shows "steady l (D2 l self) (expected l P_D2 self)"
  unfolding D2_def
  apply (rule steady_cache)
  apply (simp only: expected.simps c5_val_def)
  apply (intro steady_and_then_val [OF steady_d2 [OF assms(1)]] steady_and_then_val [OF steady_d3 [OF assms(1)]] steady_and_then [OF steady_lift] steady_ret steady_lift)
  done

lemma steady_D3:
  assumes "codec_ok l (get_n self)"
  shows "steady l (D3 l self) (expected l P_D3 self)"
  unfolding D3_def
  apply (rule steady_cache)
  apply (simp only: expected.simps c5_val_def)
  apply (intro steady_and_then_val [OF steady_d2 [OF assms(1)]] steady_and_then_val [OF steady_d3 [OF assms(1)]] steady_and_then [OF steady_lift] steady_ret steady_lift)
  done

lemma steady_D4:
  assumes "codec_ok l (get_n self)"
  shows "steady l (D4 l self) (expected l P_D4 self)"
  unfolding D4_def
  apply (rule steady_cache)
  apply (simp only: expected.simps c5_val_def)
  apply (intro steady_and_then_val [OF steady_d2 [OF assms(1)]] steady_and_then_val [OF steady_d3 [OF assms(1)]] steady_and_then [OF steady_lift] steady_ret steady_lift)
  done

lemma steady_E2:
  assumes "codec_ok l (get_n self)"
  shows "steady l (E2 l self) (expected l P_E2 self)"
  unfolding E2_def
  apply (rule steady_cache)
  apply (simp only: expected.simps c5_val_def)
  apply (intro steady_and_then_val [OF steady_d2 [OF assms(1)]] steady_and_then [OF steady_lift] steady_ret steady_lift)
  done

lemma steady_E3:
  assumes "codec_ok l (get_n self)" and "fsub (get_n self) (Fin 1) \<noteq> Fin 0"
  shows "steady l (E3 l self) (expected l P_E3 self)"
  unfolding E3_def
  apply (rule steady_cache)
  apply (simp only: expected.simps c5_val_def)
  apply (intro steady_and_then_val [OF steady_c4 [OF assms]] steady_and_then [OF steady_lift] steady_ret steady_lift)
  done


text \<open>
  On a cache miss the three methods compute their formulas whatever the state holds:
  consistency matters on a hit only.
\<close>

lemma d2_on_miss:
  assumes "files s ''.cache.d2.dbm'' (encode l (get_n self)) = None"
  shows "d2 l self s =
           (Inr (d2_val l (get_n self)),
            s\<lparr>files := (files s)(''.cache.d2.dbm'' := (files s ''.cache.d2.dbm'')
                 (encode l (get_n self) \<mapsto> encode l (d2_val l (get_n self))))\<rparr>)"
  using assms
  by (simp add: d2_def persistent_cache_def d2_func_def d2_integrand_def [abs_def] d2_val_def
      ret_def Let_def)

lemma d3_on_miss:
  assumes "files s ''.cache.d3.dbm'' (encode l (get_n self)) = None"
    and "d2 l self s = (Inr d2v, s1)"
  shows "d3 l self s =
           (Inr (np_sqrt (fsub (fmul (Fin 2) (fst (quad l (inner_val l (get_n self)) NInf PInf)))
                               (pow l d2v (Fin 2)))),
            s1\<lparr>files := (files s1)(''.cache.d3.dbm'' := (files s1 ''.cache.d3.dbm'')
                 (encode l (get_n self) \<mapsto>
                    encode l (np_sqrt (fsub (fmul (Fin 2) (fst (quad l (inner_val l (get_n self)) NInf PInf)))
                                            (pow l d2v (Fin 2))))))\<rparr>)"
  using assms
  by (simp add: d3_def persistent_cache_def d3_func_def inner_integral_eq and_then_def
      ret_def Let_def)


text \<open>
  So a state reached from a consistent one by reading any property of an instance is
  consistent, and so is the state a new process starts from: the cache files as they
  were left, the memo tables empty.
\<close>

lemma consistency_is_kept:
  assumes "codec_ok l (get_n self)" and "fsub (get_n self) (Fin 1) \<noteq> Fin 0" and "consistent l s"
  shows "consistent l (snd (d2 l self s))
       \<and> consistent l (snd (d3 l self s))
       \<and> consistent l (snd (c4 l self s))
       \<and> consistent l (snd (c5 l self s))
       \<and> consistent l (snd (prop_A l self s))
       \<and> consistent l (snd (A2 l self s))
       \<and> consistent l (snd (A3 l self s))
       \<and> consistent l (snd (B3 l self s))
       \<and> consistent l (snd (B4 l self s))
       \<and> consistent l (snd (B5 l self s))
       \<and> consistent l (snd (B6 l self s))
       \<and> consistent l (snd (D1 l self s))
       \<and> consistent l (snd (D2 l self s))
       \<and> consistent l (snd (D3 l self s))
       \<and> consistent l (snd (D4 l self s))
       \<and> consistent l (snd (E2 l self s))
       \<and> consistent l (snd (E3 l self s))"
  by (intro conjI
      steady_snd [OF steady_d2 [OF assms(1)] assms(3)]
      steady_snd [OF steady_d3 [OF assms(1)] assms(3)]
      steady_snd [OF steady_c4 [OF assms(1,2)] assms(3)]
      steady_snd [OF steady_c5 [OF assms(1,2)] assms(3)]
      steady_snd [OF steady_A assms(3)]
      steady_snd [OF steady_A2 [OF assms(1)] assms(3)]
      steady_snd [OF steady_A3 [OF assms(1,2)] assms(3)]
      steady_snd [OF steady_B3 [OF assms(1,2)] assms(3)]
      steady_snd [OF steady_B4 [OF assms(1,2)] assms(3)]
      steady_snd [OF steady_B5 [OF assms(1,2)] assms(3)]
      steady_snd [OF steady_B6 [OF assms(1,2)] assms(3)]
      steady_snd [OF steady_D1 [OF assms(1)] assms(3)]
      steady_snd [OF steady_D2 [OF assms(1)] assms(3)]
      steady_snd [OF steady_D3 [OF assms(1)] assms(3)]
      steady_snd [OF steady_D4 [OF assms(1)] assms(3)]
      steady_snd [OF steady_E2 [OF assms(1)] assms(3)]
      steady_snd [OF steady_E3 [OF assms(1,2)] assms(3)])

lemma restart_consistent: "consistent l s \<Longrightarrow> consistent l (s\<lparr>memo := (\<lambda>p. Map.empty)\<rparr>)"
  by (simp add: consistent_def)

section \<open>Entries stay\<close>

lemma grows_refl: "grows s s"
  by (simp add: grows_def)

lemma grows_trans: "grows s t \<Longrightarrow> grows t u \<Longrightarrow> grows s u"
  by (simp add: grows_def)

lemma extends_ret: "extends (ret v)"
  by (simp add: extends_def ret_def grows_refl)

lemma extends_lift: "extends (lift r)"
  by (simp add: extends_def lift_def grows_refl)

lemma extends_and_then:
  assumes "extends c" and "\<And>v. extends (k v)"
  shows "extends (and_then c k)"
  unfolding extends_def
proof
  fix s
  obtain r1 s1 where cs: "c s = (r1, s1)" by (cases "c s")
  with assms(1) have g1: "grows s s1" by (auto simp: extends_def dest: spec [of _ s])
  show "grows s (snd (and_then c k s))"
  proof (cases r1)
    case (Inl e)
    with cs g1 show ?thesis by (simp add: and_then_def)
  next
    case (Inr v)
    from assms(2) [of v] have "grows s1 (snd (k v s1))" by (simp add: extends_def)
    with g1 cs Inr show ?thesis by (auto simp: and_then_def intro: grows_trans)
  qed
qed

lemma extends_persistent_cache:
  assumes "extends (func self)"
  shows "extends (persistent_cache l db_path func self)"
  unfolding extends_def
proof
  fix s
  let ?k = "encode l (get_n self)"
  show "grows s (snd (persistent_cache l db_path func self s))"
  proof (cases "files s db_path ?k")
    case (Some b)
    then show ?thesis by (simp add: persistent_cache_def grows_refl)
  next
    case None
    obtain r1 s1 where fs: "func self s = (r1, s1)" by (cases "func self s")
    with assms have g1: "grows s s1" by (auto simp: extends_def dest: spec [of _ s])
    show ?thesis
    proof (cases r1)
      case (Inl e)
      with None fs g1 show ?thesis by (simp add: persistent_cache_def)
    next
      case (Inr v)
      have "grows s (s1\<lparr>files := (files s1)(db_path := (files s1 db_path)(?k \<mapsto> encode l v))\<rparr>)"
        using g1 None by (auto simp: grows_def)
      with None fs Inr show ?thesis by (simp add: persistent_cache_def)
    qed
  qed
qed

lemma extends_cache:
  assumes "extends (func self)"
  shows "extends (cache p func self)"
  unfolding extends_def
proof
  fix s
  show "grows s (snd (cache p func self s))"
  proof (cases "memo s p self")
    case (Some v)
    then show ?thesis by (simp add: cache_def grows_refl)
  next
    case None
    obtain r1 s1 where fs: "func self s = (r1, s1)" by (cases "func self s")
    with assms have g1: "grows s s1" by (auto simp: extends_def dest: spec [of _ s])
    show ?thesis
    proof (cases r1)
      case (Inl e)
      with None fs g1 show ?thesis by (simp add: cache_def)
    next
      case (Inr v)
      have "grows s (s1\<lparr>memo := (memo s1)(p := (memo s1 p)(self \<mapsto> v))\<rparr>)"
        using g1 None by (auto simp: grows_def)
      with None fs Inr show ?thesis by (simp add: cache_def)
    qed
  qed
qed

lemma stable_persistent_cache:
  assumes "extends (func self)"
  shows "stable_read (roundtrip l) (persistent_cache l db_path func self)"
  unfolding stable_read_def
proof (intro conjI allI impI)
  show "extends (persistent_cache l db_path func self)"
    by (rule extends_persistent_cache) (rule assms)
next
  fix s v s1 t
  let ?k = "encode l (get_n self)"
  assume run: "persistent_cache l db_path func self s = (Inr v, s1)"
    and rt: "roundtrip l v" and g: "grows s1 t"
  have "\<exists>b. files s1 db_path ?k = Some b \<and> decode l b = Inr v"
  proof (cases "files s db_path ?k")
    case (Some b)
    with run show ?thesis by (auto simp: persistent_cache_def)
  next
    case None
    with run rt show ?thesis
      by (auto simp: persistent_cache_def roundtrip_def split: prod.splits sum.splits)
  qed
  then obtain b where "files s1 db_path ?k = Some b" and d: "decode l b = Inr v" by blast
  with g have "files t db_path ?k = Some b" by (simp add: grows_def)
  with d show "persistent_cache l db_path func self t = (Inr v, t)"
    by (simp add: persistent_cache_def)
qed

lemma stable_cache:
  assumes "extends (func self)"
  shows "stable_read (\<lambda>v. True) (cache p func self)"
  unfolding stable_read_def
proof (intro conjI allI impI)
  show "extends (cache p func self)"
    by (rule extends_cache) (rule assms)
next
  fix s v s1 t
  assume run: "cache p func self s = (Inr v, s1)" and g: "grows s1 t"
  have "memo s1 p self = Some v"
  proof (cases "memo s p self")
    case (Some w)
    with run show ?thesis by (auto simp: cache_def)
  next
    case None
    with run show ?thesis
      by (auto simp: cache_def split: prod.splits sum.splits)
  qed
  with g have "memo t p self = Some v" by (simp add: grows_def)
  then show "cache p func self t = (Inr v, t)"
    by (simp add: cache_def)
qed

lemma extends_d2: "extends (d2 l self)"
  unfolding d2_def
  by (rule extends_persistent_cache) (simp add: d2_func_def Let_def extends_ret)

lemma extends_d3: "extends (d3 l self)"
  unfolding d3_def
  by (rule extends_persistent_cache)
    (simp add: d3_func_def Let_def extends_and_then extends_d2 extends_ret)

lemma extends_c4: "extends (c4 l self)"
  unfolding c4_def
  by (rule extends_persistent_cache)
    (simp add: c4_func_def Let_def extends_and_then extends_lift extends_ret)

lemmas extends_body = extends_and_then extends_d2 extends_d3 extends_c4 extends_lift extends_ret

lemma stable_d2: "stable_read (roundtrip l) (d2 l self)"
  unfolding d2_def
  by (rule stable_persistent_cache) (simp add: d2_func_def Let_def extends_ret)

lemma stable_d3: "stable_read (roundtrip l) (d3 l self)"
  unfolding d3_def
  by (rule stable_persistent_cache) (simp add: d3_func_def Let_def extends_body)

lemma stable_c4: "stable_read (roundtrip l) (c4 l self)"
  unfolding c4_def
  by (rule stable_persistent_cache) (simp add: c4_func_def Let_def extends_body)

lemma stable_c5: "stable_read (\<lambda>v. True) (c5 l self)"
  unfolding c5_def by (rule stable_cache) (intro extends_body)

lemma stable_A: "stable_read (\<lambda>v. True) (prop_A l self)"
  unfolding prop_A_def by (rule stable_cache) (intro extends_body)

lemma stable_A2: "stable_read (\<lambda>v. True) (A2 l self)"
  unfolding A2_def by (rule stable_cache) (intro extends_body)

lemma stable_A3: "stable_read (\<lambda>v. True) (A3 l self)"
  unfolding A3_def by (rule stable_cache) (intro extends_body)

lemma stable_B3: "stable_read (\<lambda>v. True) (B3 l self)"
  unfolding B3_def by (rule stable_cache) (intro extends_body)

lemma stable_B4: "stable_read (\<lambda>v. True) (B4 l self)"
  unfolding B4_def by (rule stable_cache) (intro extends_body)

lemma stable_B5: "stable_read (\<lambda>v. True) (B5 l self)"
  unfolding B5_def by (rule stable_cache) (intro extends_body)

lemma stable_B6: "stable_read (\<lambda>v. True) (B6 l self)"
  unfolding B6_def by (rule stable_cache) (intro extends_body)

lemma stable_D1: "stable_read (\<lambda>v. True) (D1 l self)"
  unfolding D1_def by (rule stable_cache) (intro extends_body)

lemma stable_D2: "stable_read (\<lambda>v. True) (D2 l self)"
  unfolding D2_def by (rule stable_cache) (intro extends_body)

lemma stable_D3: "stable_read (\<lambda>v. True) (D3 l self)"
  unfolding D3_def by (rule stable_cache) (intro extends_body)

lemma stable_D4: "stable_read (\<lambda>v. True) (D4 l self)"
  unfolding D4_def by (rule stable_cache) (intro extends_body)

lemma stable_E2: "stable_read (\<lambda>v. True) (E2 l self)"
  unfolding E2_def by (rule stable_cache) (intro extends_body)

lemma stable_E3: "stable_read (\<lambda>v. True) (E3 l self)"
  unfolding E3_def by (rule stable_cache) (intro extends_body)


subsection \<open>Later reads through a cache file\<close>

lemma cached_read_persistent_cache:
  "cached_read l db_path (encode l (get_n self)) (persistent_cache l db_path func self)"
  unfolding cached_read_def
proof (intro allI impI)
  fix s v s1 t
  assume r: "persistent_cache l db_path func self s = (Inr v, s1)" and g: "grows s1 t"
  let ?k = "encode l (get_n self)"
  show "persistent_cache l db_path func self t =
          ((if files s db_path ?k = None then decode l (encode l v) else Inr v), t)"
  proof (cases "files s db_path ?k")
    case None
    with r have "files s1 db_path ?k = Some (encode l v)"
      by (auto simp: persistent_cache_def Let_def split: prod.splits sum.splits)
    with g have "files t db_path ?k = Some (encode l v)" by (simp add: grows_def)
    with None show ?thesis by (simp add: persistent_cache_def Let_def)
  next
    case (Some b)
    with r have "s1 = s" and d: "decode l b = Inr v"
      by (simp_all add: persistent_cache_def Let_def)
    with g Some have "files t db_path ?k = Some b" by (simp add: grows_def)
    with Some d show ?thesis by (simp add: persistent_cache_def Let_def)
  qed
qed

lemma cached_read_agree: "cached_read l db_path k c \<Longrightarrow> later_reads_agree c"
  unfolding cached_read_def later_reads_agree_def
proof (intro allI impI)
  fix s v s1 t u
  assume a: "\<forall>s v s1 t. c s = (Inr v, s1) \<longrightarrow> grows s1 t \<longrightarrow>
        c t = ((if files s db_path k = None then decode l (encode l v) else Inr v), t)"
    and r: "c s = (Inr v, s1)" and t: "grows s1 t" and u: "grows s1 u"
  from a r t have "fst (c t) = (if files s db_path k = None then decode l (encode l v) else Inr v)"
    by simp
  moreover from a r u
  have "fst (c u) = (if files s db_path k = None then decode l (encode l v) else Inr v)"
    by simp
  ultimately show "fst (c t) = fst (c u)" by simp
qed

lemma cached_read_d2: "cached_read l ''.cache.d2.dbm'' (encode l (get_n self)) (d2 l self)"
  unfolding d2_def by (rule cached_read_persistent_cache)

lemma cached_read_d3: "cached_read l ''.cache.d3.dbm'' (encode l (get_n self)) (d3 l self)"
  unfolding d3_def by (rule cached_read_persistent_cache)

lemma cached_read_c4: "cached_read l ''.cache.c4.dbm'' (encode l (get_n self)) (c4 l self)"
  unfolding c4_def by (rule cached_read_persistent_cache)


section \<open>The concrete runs\<close>

lemma demo_sel:
  "norm_cdf demo_lib = (\<lambda>x. Fin (1 / 2))"
  "quad demo_lib = (\<lambda>g a b. (if b = PInf then fmul (Fin 2) (g (Fin 0)) else g (Fin 0), Fin 0))"
  "gammaln demo_lib = (\<lambda>x. Fin 0)"
  "np_exp demo_lib = (\<lambda>x. Fin (1 / 2))"
  "pow demo_lib = (\<lambda>a b. fmul a a)"
  "fstring demo_lib = demo_fstring"
  "float_of demo_lib = demo_float_of"
  by (simp_all add: demo_lib_def)

lemma demo_d2_val: "d2_val demo_lib (Fin 3) = Fin 1"
  by (simp add: d2_val_def demo_sel fsub_def)

lemma demo_d3_radicand: "d3_radicand demo_lib (Fin 3) = Fin 1"
  by (simp add: d3_radicand_def inner_val_def f_val_def d2_val_def demo_sel fsub_def)

lemma demo_d3_val: "d3_val demo_lib (Fin 3) = Fin 1"
  by (simp add: d3_val_def demo_d3_radicand)

lemma demo_c4_val: "c4_val demo_lib (Fin 3) = Fin (1 / 2)"
  by (simp add: c4_val_def demo_sel fsub_def)

lemma demo_key: "demo_fstring n' = ''3'' \<longleftrightarrow> n' = Fin 3"
  by (simp add: demo_fstring_def)

lemma demo_codec: "codec_ok demo_lib (Fin 3)"
  by (simp add: codec_ok_def roundtrip_def encode_def decode_def demo_d2_val demo_d3_val
      demo_c4_val demo_sel demo_fstring_def demo_float_of_def)

lemma demo_n: "get_n demo_spc = Fin 3"
  by (simp add: demo_spc_def get_n_def)

lemma demo_z: "get_z demo_spc = Fin 3"
  by (simp add: demo_spc_def get_z_def)


lemma demo_reads:
  "fst (c4 demo_lib demo_spc init_state) = Inr (Fin (1 / 2))"
  "fst (c5 demo_lib demo_spc init_state) = Inr (c5_val demo_lib (Fin 3))"
  "fst (d2 demo_lib demo_spc init_state) = Inr (Fin 1)"
  "fst (d3 demo_lib demo_spc init_state) = Inr (Fin 1)"
proof -
  have c: "codec_ok demo_lib (get_n demo_spc)" by (simp add: demo_n demo_codec)
  have n1: "fsub (get_n demo_spc) (Fin 1) \<noteq> Fin 0" by (simp add: demo_n fsub_def)
  show "fst (c4 demo_lib demo_spc init_state) = Inr (Fin (1 / 2))"
    using steady_fst [OF steady_c4 [OF c n1] consistent_init] by (simp add: demo_n demo_c4_val)
  show "fst (c5 demo_lib demo_spc init_state) = Inr (c5_val demo_lib (Fin 3))"
    using steady_fst [OF steady_c5 [OF c n1] consistent_init] by (simp add: demo_n)
  show "fst (d2 demo_lib demo_spc init_state) = Inr (Fin 1)"
    using steady_fst [OF steady_d2 [OF c] consistent_init] by (simp add: demo_n demo_d2_val)
  show "fst (d3 demo_lib demo_spc init_state) = Inr (Fin 1)"
    using steady_fst [OF steady_d3 [OF c] consistent_init] by (simp add: demo_n demo_d3_val)
qed


lemma coarse_sel:
  "norm_cdf coarse_lib = (\<lambda>x. Fin (1 / 2))"
  "quad coarse_lib = (\<lambda>g a b. (if b = PInf then g (Fin 0) else Fin 0, Fin 0))"
  "gammaln coarse_lib = (\<lambda>x. Fin 0)"
  "np_exp coarse_lib = (\<lambda>x. Fin (1 / 2))"
  "pow coarse_lib = (\<lambda>a b. fmul a a)"
  "fstring coarse_lib = demo_fstring"
  "float_of coarse_lib = demo_float_of"
  by (simp_all add: coarse_lib_def demo_lib_def)

lemma coarse_d2_val: "d2_val coarse_lib (Fin 3) = Fin (1 / 2)"
  by (simp add: d2_val_def coarse_sel fsub_def)

lemma coarse_d3_radicand: "d3_radicand coarse_lib (Fin 3) = Fin (- (1 / 4))"
  by (simp add: d3_radicand_def inner_val_def coarse_d2_val coarse_sel fsub_def)

lemma coarse_d3_val: "d3_val coarse_lib (Fin 3) = NaN"
  by (simp add: d3_val_def coarse_d3_radicand)

lemma coarse_c4_val: "c4_val coarse_lib (Fin 3) = Fin (1 / 2)"
  by (simp add: c4_val_def coarse_sel fsub_def)

lemma coarse_codec: "codec_ok coarse_lib (Fin 3)"
  by (simp add: codec_ok_def roundtrip_def encode_def decode_def coarse_d2_val coarse_d3_val
      coarse_c4_val coarse_sel demo_fstring_def demo_float_of_def)

lemma constructed_n: "SPC_Constants l i n z = Inr self \<Longrightarrow> get_n self = n"
  by (auto simp: SPC_Constants_def get_n_def split: if_splits)

lemma coarse_d2_read:
  "d2 coarse_lib demo_spc init_state =
     (Inr (Fin (1 / 2)),
      \<lparr>files = (\<lambda>db_path. Map.empty)(''.cache.d2.dbm'' := [''3'' \<mapsto> ''0.5'']),
       memo = (\<lambda>p. Map.empty)\<rparr>)"
  by (simp add: d2_def d2_func_def persistent_cache_def and_then_def ret_def d2_integrand_def
      encode_def coarse_sel demo_fstring_def demo_n init_state_def fsub_def)

subsection \<open>The second instance\<close>




subsection \<open>The example of the docstring\<close>













subsection \<open>The very large sample size\<close>

lemma n_max_eq [simp]:
  "n_max = Fin x \<longleftrightarrow> x = 2 ^ 1023" "Fin x = n_max \<longleftrightarrow> x = 2 ^ 1023"
  "n_max \<noteq> NaN" "NaN \<noteq> n_max" "n_max \<noteq> NaN_other" "NaN_other \<noteq> n_max"
  by (auto simp: n_max_def)


lemma n_max_half: "fdiv n_max (Fin 2) = Fin (2 ^ 1022)"
proof -
  have "round64 (2 ^ 1022) = Fin (2 ^ 1022)"
    by (rule round64_exact [where e = 1022 and m = "2 ^ 52"]) simp_all
  then show ?thesis by (simp add: n_max_def)
qed

lemma n_max_minus_one: "fsub n_max (Fin 1) = n_max"
proof -
  have "round64 (2 ^ 1023 - 1) = Fin (of_int (2 ^ 53) * 2 powi (1022 - 52))"
    by (rule round64_near [where e = 1022 and m = "2 ^ 53"]) simp_all
  then show ?thesis by (simp add: n_max_def fsub_def)
qed

lemma two_over_n_max: "py_truediv (Fin 2) n_max = Inr (Fin (1 / 2 ^ 1022))"
proof -
  have "round64 (1 / 2 ^ 1022) = Fin (1 / 2 ^ 1022)"
    by (rule round64_exact [where e = "- 1022" and m = "2 ^ 52"]) simp_all
  then show ?thesis by (simp add: n_max_def py_truediv_def)
qed

lemma overflow_sel:
  "norm_cdf overflow_lib = (\<lambda>x. Fin (1 / 2))"
  "quad overflow_lib = (\<lambda>g a b. (if b = PInf then fmul (Fin 2) (g (Fin 0)) else g (Fin 0), Fin 0))"
  "gammaln overflow_lib = (\<lambda>x. if py_ge x (Fin (2 ^ 1015)) then PInf else Fin 0)"
  "np_exp overflow_lib = (\<lambda>x. if is_nan x then x else Fin (1 / 2))"
  "pow overflow_lib = (\<lambda>a b. fmul a a)"
  "fstring overflow_lib = big_fstring"
  "float_of overflow_lib = big_float_of"
  by (simp_all add: overflow_lib_def demo_lib_def)

lemma huge_n: "get_n huge_spc = n_max"
  by (simp add: huge_spc_def get_n_def)

lemma huge_constructed: "SPC_Constants l 0 n_max (Fin 3) = Inr huge_spc"
  by (simp add: SPC_Constants_def huge_spc_def n_max_def py_le_def)

lemma overflow_gammaln:
  "gammaln overflow_lib (fdiv n_max (Fin 2)) = PInf"
  "gammaln overflow_lib (fdiv (fsub n_max (Fin 1)) (Fin 2)) = PInf"
  by (simp_all add: overflow_sel n_max_minus_one n_max_half py_ge_def py_le_def)

lemma two_over_n_max_sqrt: "fmul (np_sqrt (Fin (1 / 2 ^ 1022))) NaN = NaN"
  by (rule fmul_NaN_right) (rule np_sqrt_not_other)

lemma overflow_c4_func: "c4_func overflow_lib huge_spc s = (Inr NaN, s)"
  using two_over_n_max_sqrt
  by (simp add: c4_func_def and_then_def lift_def ret_def two_over_n_max huge_n
      overflow_gammaln n_max_minus_one fsub_inf_inf overflow_sel(4) del: np_sqrt.simps)


lemma overflow_c4_first:
  "c4 overflow_lib huge_spc init_state = (Inr NaN, huge_after_c4)"
  by (simp add: c4_def persistent_cache_def overflow_c4_func encode_def overflow_sel(6)
      big_fstring_def demo_fstring_def huge_n init_state_def huge_after_c4_def)

lemma overflow_c4_again:
  "c4 overflow_lib huge_spc huge_after_c4 = (Inr NaN_other, huge_after_c4)"
  by (simp add: c4_def persistent_cache_def encode_def decode_def overflow_sel
      big_fstring_def big_float_of_def huge_n huge_after_c4_def)


section \<open>The range constants d2 and d3\<close>





section \<open>c4 and c5\<close>






section \<open>The derived constants\<close>





section \<open>A negative number under the square root\<close>

text \<open>
  C6, as stated: when the number under the square root of d3 is negative, the first
  read of \<open>d3\<close> raises a precision error. It does not. With the coarse quadrature the
  number is \<open>-1/4\<close>; construction succeeds, and the read returns NaN, having written
  the text of NaN to the cache file of d3.
\<close>

theorem negative_radicand_raises_nothing:
  "SPC_Constants coarse_lib 0 (Fin 3) (Fin 3) = Inr demo_spc
   \<and> py_lt (d3_radicand coarse_lib (Fin 3)) (Fin 0)
   \<and> d3 coarse_lib demo_spc init_state =
       (Inr NaN,
        \<lparr>files = (\<lambda>db_path. Map.empty)
           (''.cache.d2.dbm'' := [''3'' \<mapsto> ''0.5''], ''.cache.d3.dbm'' := [''3'' \<mapsto> ''nan'']),
         memo = (\<lambda>p. Map.empty)\<rparr>)"
proof -
  have a: "SPC_Constants coarse_lib 0 (Fin 3) (Fin 3) = Inr demo_spc"
    by (simp add: SPC_Constants_def demo_spc_def py_le_def)
  have b: "py_lt (d3_radicand coarse_lib (Fin 3)) (Fin 0)"
    by (simp add: coarse_d3_radicand)
  have c: "d3 coarse_lib demo_spc init_state =
       (Inr NaN,
        \<lparr>files = (\<lambda>db_path. Map.empty)
           (''.cache.d2.dbm'' := [''3'' \<mapsto> ''0.5''], ''.cache.d3.dbm'' := [''3'' \<mapsto> ''nan'']),
         memo = (\<lambda>p. Map.empty)\<rparr>)"
    by (simp add: d3_def d3_func_def d2_def d2_func_def persistent_cache_def
      and_then_def ret_def inner_integral_def f_method_def d2_integrand_def encode_def
      coarse_sel demo_fstring_def demo_n init_state_def fsub_def)
  from a b c show ?thesis by blast
qed

text \<open>
  C6, amended. When the number under the square root of d3 is negative, construction
  is not affected, and reading \<open>d3\<close> of the instance raises nothing: it returns NaN
  (\<open>np.sqrt\<close> warns and returns), and on a cache miss the text of NaN is stored in
  the cache file of d3. On a cache miss this holds from every state and for every
  library, with the number under the square root formed from the value the read of
  \<open>d2\<close> returned.
\<close>

theorem negative_radicand_gives_nan:
  assumes "SPC_Constants l i n z = Inr self"
  shows "(codec_ok l n \<and> consistent l s \<and> py_lt (d3_radicand l n) (Fin 0) \<longrightarrow>
            fst (d3 l self s) = Inr NaN
            \<and> (files s ''.cache.d3.dbm'' (encode l n) = None \<longrightarrow>
                 files (snd (d3 l self s)) ''.cache.d3.dbm'' (encode l n) = Some (encode l NaN)))
       \<and> (\<forall>d2v s1.
            files s ''.cache.d3.dbm'' (encode l n) = None \<and> d2 l self s = (Inr d2v, s1)
            \<and> py_lt (fsub (fmul (Fin 2) (fst (quad l (inner_val l n) NInf PInf)))
                          (pow l d2v (Fin 2))) (Fin 0) \<longrightarrow>
            d3 l self s =
              (Inr NaN,
               s1\<lparr>files := (files s1)(''.cache.d3.dbm'' := (files s1 ''.cache.d3.dbm'')
                    (encode l n \<mapsto> encode l NaN))\<rparr>))"
proof -
  from assms have n: "get_n self = n" by (simp add: constructed_n)
  have 1: "fst (d3 l self s) = Inr NaN
            \<and> (files s ''.cache.d3.dbm'' (encode l n) = None \<longrightarrow>
                 files (snd (d3 l self s)) ''.cache.d3.dbm'' (encode l n) = Some (encode l NaN))"
    if a: "codec_ok l n \<and> consistent l s \<and> py_lt (d3_radicand l n) (Fin 0)"
  proof -
    from a n have c: "codec_ok l (get_n self)" by simp
    have "d3_val l n = NaN"
      using a by (simp add: d3_val_def np_sqrt_negative)
    then have r: "fst (d3 l self s) = Inr NaN"
      using steady_fst [OF steady_d3 [OF c], of s] a n by simp
    moreover have "files (snd (d3 l self s)) ''.cache.d3.dbm'' (encode l n) = Some (encode l NaN)"
      if "files s ''.cache.d3.dbm'' (encode l n) = None"
      using persistent_cache_miss [of s "''.cache.d3.dbm''" l self "d3_func l" NaN] that r n
      by (simp add: d3_def)
    ultimately show ?thesis by simp
  qed
  have 2: "d3 l self s =
              (Inr NaN,
               s1\<lparr>files := (files s1)(''.cache.d3.dbm'' := (files s1 ''.cache.d3.dbm'')
                    (encode l n \<mapsto> encode l NaN))\<rparr>)"
    if a: "files s ''.cache.d3.dbm'' (encode l n) = None \<and> d2 l self s = (Inr d2v, s1)
            \<and> py_lt (fsub (fmul (Fin 2) (fst (quad l (inner_val l n) NInf PInf)))
                          (pow l d2v (Fin 2))) (Fin 0)" for d2v s1
  proof -
    from a have m: "files s ''.cache.d3.dbm'' (encode l (get_n self)) = None"
      and d: "d2 l self s = (Inr d2v, s1)" using n by simp_all
    from a have "np_sqrt (fsub (fmul (Fin 2) (fst (quad l (inner_val l n) NInf PInf)))
                          (pow l d2v (Fin 2))) = NaN"
      by (simp add: np_sqrt_negative)
    with d3_on_miss [OF m d] n show ?thesis by simp
  qed
  from 1 2 show ?thesis by blast
qed

theorem negative_radicand_gives_nan_witness:
  "SPC_Constants coarse_lib 0 (Fin 3) (Fin 3) = Inr demo_spc
   \<and> codec_ok coarse_lib (Fin 3) \<and> consistent coarse_lib init_state
   \<and> py_lt (d3_radicand coarse_lib (Fin 3)) (Fin 0)
   \<and> fst (d3 coarse_lib demo_spc init_state) = Inr NaN
   \<and> files init_state ''.cache.d3.dbm'' (encode coarse_lib (Fin 3)) = None
   \<and> files (snd (d3 coarse_lib demo_spc init_state)) ''.cache.d3.dbm'' (encode coarse_lib (Fin 3))
        = Some ''nan''
   \<and> fst (d2 coarse_lib demo_spc init_state) = Inr (Fin (1 / 2))
   \<and> fsub (fmul (Fin 2) (fst (quad coarse_lib (inner_val coarse_lib (Fin 3)) NInf PInf)))
           (pow coarse_lib (Fin (1 / 2)) (Fin 2)) = Fin (- (1 / 4))
   \<and> d3 coarse_lib demo_spc init_state =
       (Inr NaN,
        \<lparr>files = (\<lambda>db_path. Map.empty)
           (''.cache.d2.dbm'' := [''3'' \<mapsto> ''0.5''], ''.cache.d3.dbm'' := [''3'' \<mapsto> ''nan'']),
         memo = (\<lambda>p. Map.empty)\<rparr>)"
proof -
  have a: "SPC_Constants coarse_lib 0 (Fin 3) (Fin 3) = Inr demo_spc"
    by (simp add: SPC_Constants_def demo_spc_def py_le_def)
  have r: "py_lt (d3_radicand coarse_lib (Fin 3)) (Fin 0)"
    by (simp add: coarse_d3_radicand)
  have e: "files init_state ''.cache.d3.dbm'' (encode coarse_lib (Fin 3)) = None"
    by (simp add: init_state_def)
  have v: "fsub (fmul (Fin 2) (fst (quad coarse_lib (inner_val coarse_lib (Fin 3)) NInf PInf)))
           (pow coarse_lib (Fin (1 / 2)) (Fin 2)) = Fin (- (1 / 4))"
    by (simp add: inner_val_def coarse_sel fsub_def)
  note t = negative_radicand_gives_nan [OF a, of init_state]
  from t a e r have p: "fst (d3 coarse_lib demo_spc init_state) = Inr NaN
     \<and> files (snd (d3 coarse_lib demo_spc init_state)) ''.cache.d3.dbm'' (encode coarse_lib (Fin 3))
        = Some ''nan''"
    by (simp add: coarse_codec consistent_init)
      (simp add: encode_def coarse_sel demo_fstring_def)
  from t e coarse_d2_read v
  have q: "d3 coarse_lib demo_spc init_state =
       (Inr NaN,
        \<lparr>files = (\<lambda>db_path. Map.empty)
           (''.cache.d2.dbm'' := [''3'' \<mapsto> ''0.5''], ''.cache.d3.dbm'' := [''3'' \<mapsto> ''nan'']),
         memo = (\<lambda>p. Map.empty)\<rparr>)"
    by (simp add: encode_def coarse_sel demo_fstring_def)
  from a r e v p q coarse_d2_read show ?thesis
    by (simp only: coarse_codec consistent_init fst_conv simp_thms)
qed

section \<open>Construction\<close>


text \<open>
  C7. \<open>SPC_Constants(n, z)\<close> raises ValueError, the program's invalid-parameter error,
  when \<open>n < 2\<close> or \<open>z <= 0\<close>, and then returns no instance; otherwise it
  returns the instance, whose \<open>n\<close> and \<open>z\<close> are the arguments. Construction
  takes no state and returns none: it reads and writes neither the cache files nor
  the memo tables.
\<close>

theorem construction_validates:
  "(py_lt n (Fin 2) \<or> py_le z (Fin 0) \<longrightarrow>
      (\<exists>msg. SPC_Constants l i n z = Inl (ValueError msg)))
   \<and> (\<not> py_lt n (Fin 2) \<and> \<not> py_le z (Fin 0) \<longrightarrow>
      (\<exists>self. SPC_Constants l i n z = Inr self \<and> oid self = i
         \<and> get_n self = n \<and> get_z self = z))"
  by (simp add: SPC_Constants_def get_n_def get_z_def)

theorem construction_validates_witness:
  "(py_lt (Fin 1) (Fin 2) \<and> (\<exists>msg. SPC_Constants demo_lib 0 (Fin 1) (Fin 3) = Inl (ValueError msg)))
   \<and> (py_lt (Fin 0) (Fin 2) \<and> (\<exists>msg. SPC_Constants demo_lib 0 (Fin 0) (Fin 3) = Inl (ValueError msg)))
   \<and> (py_lt (Fin (- 4)) (Fin 2) \<and> (\<exists>msg. SPC_Constants demo_lib 0 (Fin (- 4)) (Fin 3) = Inl (ValueError msg)))
   \<and> (py_le (Fin 0) (Fin 0) \<and> (\<exists>msg. SPC_Constants demo_lib 0 (Fin 2) (Fin 0) = Inl (ValueError msg)))
   \<and> (py_le (Fin (- 1)) (Fin 0) \<and> (\<exists>msg. SPC_Constants demo_lib 0 (Fin 2) (Fin (- 1)) = Inl (ValueError msg)))
   \<and> (\<not> py_lt (Fin 2) (Fin 2) \<and> \<not> py_le (Fin 3) (Fin 0)
        \<and> (\<exists>self. SPC_Constants demo_lib 0 (Fin 2) (Fin 3) = Inr self \<and> oid self = 0
              \<and> get_n self = Fin 2 \<and> get_z self = Fin 3))"
  using construction_validates [of "Fin 1" "Fin 3" demo_lib 0]
    construction_validates [of "Fin 0" "Fin 3" demo_lib 0]
    construction_validates [of "Fin (- 4)" "Fin 3" demo_lib 0]
    construction_validates [of "Fin 2" "Fin 0" demo_lib 0]
    construction_validates [of "Fin 2" "Fin (- 1)" demo_lib 0]
    construction_validates [of "Fin 2" "Fin 3" demo_lib 0]
  by (simp add: py_le_def)


section \<open>d2 and d3 do not depend on z\<close>



section \<open>Reading a field again\<close>

text \<open>
  C9, as stated: a later read is bit-identical to the first, also when it decodes the
  text the first read wrote. Not for a NaN: its text is \<open>nan\<close>, and \<open>float('nan')\<close>
  is a NaN of its own, whatever the bits of the NaN that was computed. At \<open>n = 2 ^ 1023\<close>
  the first read of \<open>c4\<close> returns the NaN of \<open>inf - inf\<close> and the second the NaN
  of the text.
\<close>

theorem nan_is_read_back_with_other_bits:
  "n_max = Fin (2 ^ 1023)
   \<and> SPC_Constants overflow_lib 0 n_max (Fin 3) = Inr huge_spc
   \<and> c4 overflow_lib huge_spc init_state = (Inr NaN, huge_after_c4)
   \<and> c4 overflow_lib huge_spc huge_after_c4 = (Inr NaN_other, huge_after_c4)
   \<and> NaN \<noteq> NaN_other"
  by (simp add: n_max_def [symmetric] huge_constructed overflow_c4_first overflow_c4_again)

text \<open>
  C9, amended. The properties \<open>n\<close> and \<open>z\<close> return the attributes of the instance and
  involve no state. \<open>c5\<close> and the thirteen derived properties are memoized: once one has
  returned a value, every later read of it on the same instance returns that very value,
  whatever was read in between. For \<open>d2\<close>, \<open>d3\<close> and \<open>c4\<close>, once a read has returned
  a value, every later read returns what the cache file holds: the same value when the
  first read was itself served from the file, and \<open>float\<close> of the text of the value
  when the first read computed it. So all later reads agree with each other, and they
  agree with the first one whenever the text of its value reads back as the value, which
  holds for every float that is not a NaN. No read removes or overwrites an entry.
\<close>

theorem reads_repeat:
  "get_n self = sample_size self \<and> get_z self = sigma_limit self
   \<and> stable_read (roundtrip l) (d2 l self) \<and> stable_read (roundtrip l) (d3 l self)
   \<and> stable_read (roundtrip l) (c4 l self) \<and> stable_read (\<lambda>v. True) (c5 l self)
   \<and> stable_read (\<lambda>v. True) (prop_A l self) \<and> stable_read (\<lambda>v. True) (A2 l self)
   \<and> stable_read (\<lambda>v. True) (A3 l self) \<and> stable_read (\<lambda>v. True) (B3 l self)
   \<and> stable_read (\<lambda>v. True) (B4 l self) \<and> stable_read (\<lambda>v. True) (B5 l self)
   \<and> stable_read (\<lambda>v. True) (B6 l self) \<and> stable_read (\<lambda>v. True) (D1 l self)
   \<and> stable_read (\<lambda>v. True) (D2 l self) \<and> stable_read (\<lambda>v. True) (D3 l self)
   \<and> stable_read (\<lambda>v. True) (D4 l self) \<and> stable_read (\<lambda>v. True) (E2 l self)
   \<and> stable_read (\<lambda>v. True) (E3 l self)
   \<and> cached_read l ''.cache.d2.dbm'' (encode l (get_n self)) (d2 l self)
   \<and> cached_read l ''.cache.d3.dbm'' (encode l (get_n self)) (d3 l self)
   \<and> cached_read l ''.cache.c4.dbm'' (encode l (get_n self)) (c4 l self)
   \<and> later_reads_agree (d2 l self) \<and> later_reads_agree (d3 l self)
   \<and> later_reads_agree (c4 l self)"
  by (intro conjI get_n_def get_z_def stable_d2 stable_d3 stable_c4 stable_c5 stable_A stable_A2 stable_A3
      stable_B3 stable_B4 stable_B5 stable_B6 stable_D1 stable_D2 stable_D3 stable_D4
      stable_E2 stable_E3 cached_read_d2 cached_read_d3 cached_read_c4
      cached_read_agree [OF cached_read_d2] cached_read_agree [OF cached_read_d3]
      cached_read_agree [OF cached_read_c4])

theorem reads_repeat_witness:
  "d3 demo_lib demo_spc init_state = (Inr (Fin 1), demo_after_d3)
   \<and> roundtrip demo_lib (Fin 1)
   \<and> grows demo_after_d3 demo_after_D1
   \<and> d3 demo_lib demo_spc demo_after_D1 = (Inr (Fin 1), demo_after_D1)
   \<and> D1 demo_lib demo_spc demo_after_d3 = (Inr (Fin 0), demo_after_D1)
   \<and> grows demo_after_D1 demo_after_D1
   \<and> D1 demo_lib demo_spc demo_after_D1 = (Inr (Fin 0), demo_after_D1)
   \<and> c4 overflow_lib huge_spc init_state = (Inr NaN, huge_after_c4)
   \<and> files init_state ''.cache.c4.dbm'' (encode overflow_lib (get_n huge_spc)) = None
   \<and> grows huge_after_c4 huge_after_c4
   \<and> decode overflow_lib (encode overflow_lib NaN) = Inr NaN_other
   \<and> c4 overflow_lib huge_spc huge_after_c4 = (Inr NaN_other, huge_after_c4)"
proof -
  have c: "codec_ok demo_lib (get_n demo_spc)" by (simp add: demo_n demo_codec)
  have r: "d3 demo_lib demo_spc init_state = (Inr (Fin 1), demo_after_d3)"
    by (simp add: demo_after_d3_def prod_eq_iff demo_reads)
  have rt: "roundtrip demo_lib (Fin 1)"
    by (simp add: roundtrip_def encode_def decode_def demo_sel demo_fstring_def demo_float_of_def)
  have s1: "consistent demo_lib demo_after_d3"
    unfolding demo_after_d3_def by (rule steady_snd [OF steady_d3 [OF c] consistent_init])
  have "fst (D1 demo_lib demo_spc demo_after_d3) = Inr (Fin 0)"
    using steady_fst [OF steady_D1 [OF c] s1]
    by (simp add: demo_n demo_z demo_d2_val demo_d3_val fsub_def max0_def py_gt_def)
  then have q: "D1 demo_lib demo_spc demo_after_d3 = (Inr (Fin 0), demo_after_D1)"
    by (simp add: demo_after_D1_def prod_eq_iff)
  note st = reads_repeat [where l = demo_lib and self = demo_spc]
  from st have d3s: "stable_read (roundtrip demo_lib) (d3 demo_lib demo_spc)"
    and D1s: "stable_read (\<lambda>v. True) (D1 demo_lib demo_spc)"
    by simp_all
  from D1s have g: "grows demo_after_d3 demo_after_D1"
    by (simp add: stable_read_def extends_def demo_after_D1_def)
  from d3s r rt g have r2: "d3 demo_lib demo_spc demo_after_D1 = (Inr (Fin 1), demo_after_D1)"
    unfolding stable_read_def by blast
  from D1s q grows_refl have q2: "D1 demo_lib demo_spc demo_after_D1 = (Inr (Fin 0), demo_after_D1)"
    unfolding stable_read_def by blast
  have m: "files init_state ''.cache.c4.dbm'' (encode overflow_lib (get_n huge_spc)) = None"
    by (simp add: init_state_def)
  have d: "decode overflow_lib (encode overflow_lib NaN) = Inr NaN_other"
    by (simp add: decode_def encode_def overflow_sel big_fstring_def big_float_of_def
        demo_fstring_def)
  from reads_repeat [where l = overflow_lib and self = huge_spc]
  have "cached_read overflow_lib ''.cache.c4.dbm'' (encode overflow_lib (get_n huge_spc))
          (c4 overflow_lib huge_spc)"
    by blast
  with overflow_c4_first grows_refl [of huge_after_c4] m d
  have x: "c4 overflow_lib huge_spc huge_after_c4 = (Inr NaN_other, huge_after_c4)"
    unfolding cached_read_def by fastforce
  from r rt g r2 q q2 overflow_c4_first m d x show ?thesis by (simp add: grows_refl)
qed

section \<open>NaN parameters\<close>

text \<open>
  C10, as stated: a NaN \<open>n\<close> is accepted whatever \<open>z\<close> is. It is not: the guard on
  \<open>z\<close> still runs, and \<open>SPC_Constants(nan, 0)\<close> raises.
\<close>

theorem nan_n_zero_z_rejected:
  "SPC_Constants demo_lib 0 NaN (Fin 0) = Inl (ValueError ''z argument must be positive, not 0'')"
  by (simp add: SPC_Constants_def py_le_def demo_lib_def demo_fstring_def)

text \<open>
  C10, amended. Construction succeeds when \<open>n\<close> is NaN and \<open>z <= 0\<close> is false (\<open>z\<close>
  is positive or NaN), and when \<open>n >= 2\<close> and \<open>z\<close> is NaN: both guards compare
  false on NaN. The instance then holds a parameter for which \<open>n >= 2\<close>, or
  \<open>z > 0\<close>, is false.
\<close>

theorem construction_accepts_nan:
  "(is_nan n \<and> \<not> py_le z (Fin 0)) \<or> (py_ge n (Fin 2) \<and> is_nan z) \<Longrightarrow>
   SPC_Constants l i n z = Inr \<lparr>oid = i, sample_size = n, sigma_limit = z\<rparr>
   \<and> \<not> (py_ge n (Fin 2) \<and> py_gt z (Fin 0))"
  by (cases n) (auto simp: SPC_Constants_def py_ge_def py_gt_def py_le_def is_nan_def)

theorem construction_accepts_nan_witness:
  "((is_nan NaN \<and> \<not> py_le (Fin 3) (Fin 0)) \<or> (py_ge NaN (Fin 2) \<and> is_nan (Fin 3)))
   \<and> SPC_Constants demo_lib 0 NaN (Fin 3) = Inr \<lparr>oid = 0, sample_size = NaN, sigma_limit = Fin 3\<rparr>
   \<and> ((is_nan (Fin 2) \<and> \<not> py_le NaN (Fin 0)) \<or> (py_ge (Fin 2) (Fin 2) \<and> is_nan NaN))
   \<and> SPC_Constants demo_lib 0 (Fin 2) NaN = Inr \<lparr>oid = 0, sample_size = Fin 2, sigma_limit = NaN\<rparr>
   \<and> ((is_nan NaN_other \<and> \<not> py_le NaN_other (Fin 0)) \<or> (py_ge NaN_other (Fin 2) \<and> is_nan NaN_other))
   \<and> SPC_Constants demo_lib 0 NaN_other NaN_other =
        Inr \<lparr>oid = 0, sample_size = NaN_other, sigma_limit = NaN_other\<rparr>"
  using construction_accepts_nan [of NaN "Fin 3" demo_lib 0]
    construction_accepts_nan [of "Fin 2" NaN demo_lib 0]
    construction_accepts_nan [of NaN_other NaN_other demo_lib 0]
  by (simp add: py_le_def py_ge_def)

end
